theory Spec2Isabelle
  imports Main "HOL-Library.Monad_Syntax"
begin

text \<open>
  The booking notification function: a handler that takes a form submission from the
  request body, validates the required fields, renders an HTML mail and sends it to the
  academy's address. The repository holds it twice, once sending through Gmail with an
  OAuth2 access token minted for the request (\<^verbatim>\<open>index.js\<close>) and once through SMTP with
  static credentials. This theory embeds both handlers as functions of the request body
  and of what the platform supplies, and proves what the specification says of them.
\<close>

section \<open>JavaScript values\<close>

text \<open>
  The request body and every field of the submission are run-time JavaScript values: what
  \<^verbatim>\<open>JSON.parse\<close> can return, and \<^verbatim>\<open>undefined\<close> for a property that is not there.
  A number is held as its canonical decimal text, the result of \<^verbatim>\<open>String(n)\<close>
  (so \<^verbatim>\<open>0\<close> and \<^verbatim>\<open>-0\<close> are both \<open>JNum ''0''\<close>); the handler only tests a number
  for truthiness and converts it to text. An object is the list of its own properties;
  a property is looked up with \<open>map_of\<close>. Strings are byte lists: a character
  outside ASCII is written as its UTF-8 bytes.
\<close>

datatype jsval =
    JUndefined
  | JNull
  | JBool bool
  | JNum string
  | JStr string
  | JArr "jsval list"
  | JObj "(string \<times> jsval) list"

text \<open>ToBoolean: what \<^verbatim>\<open>!x\<close>, \<^verbatim>\<open>x || y\<close>, \<^verbatim>\<open>x && y\<close> and \<^verbatim>\<open>x ? a : b\<close> test.\<close>

fun js_truthy :: "jsval \<Rightarrow> bool" where
  "js_truthy JUndefined = False"
| "js_truthy JNull = False"
| "js_truthy (JBool b) = b"
| "js_truthy (JNum t) = (t \<noteq> ''0'' \<and> t \<noteq> ''NaN'')"
| "js_truthy (JStr s) = (s \<noteq> [])"
| "js_truthy (JArr xs) = True"
| "js_truthy (JObj fs) = True"

text \<open>\<^verbatim>\<open>a || b\<close> and \<^verbatim>\<open>a ?? b\<close> on values.\<close>

definition js_or :: "jsval \<Rightarrow> jsval \<Rightarrow> jsval" where
  "js_or a b = (if js_truthy a then a else b)"

definition js_nullish :: "jsval \<Rightarrow> bool" where
  "js_nullish v = (v = JUndefined \<or> v = JNull)"

definition js_coalesce :: "jsval \<Rightarrow> jsval \<Rightarrow> jsval" where
  "js_coalesce a b = (if js_nullish a then b else a)"

fun js_typeof :: "jsval \<Rightarrow> string" where
  "js_typeof JUndefined = ''undefined''"
| "js_typeof JNull = ''object''"
| "js_typeof (JBool b) = ''boolean''"
| "js_typeof (JNum t) = ''number''"
| "js_typeof (JStr s) = ''string''"
| "js_typeof (JArr xs) = ''object''"
| "js_typeof (JObj fs) = ''object''"

text \<open>
  The property read \<^verbatim>\<open>v.k\<close> on a value that is neither \<^verbatim>\<open>null\<close> nor
  \<^verbatim>\<open>undefined\<close> (on those the read throws; the callers test \<open>js_nullish\<close> first).
  It is the own property of an object, and \<^verbatim>\<open>undefined\<close> otherwise: right for the
  names the handler reads (\<^verbatim>\<open>payload\<close> and the twelve field names), none of which is
  inherited from a prototype or is an index or \<^verbatim>\<open>length\<close> of an array or string.
\<close>

fun js_get :: "jsval \<Rightarrow> string \<Rightarrow> jsval" where
  "js_get (JObj fs) k = (case map_of fs k of None \<Rightarrow> JUndefined | Some v \<Rightarrow> v)"
| "js_get v k = JUndefined"

text \<open>\<^verbatim>\<open>v?.k\<close>: \<^verbatim>\<open>undefined\<close> on \<^verbatim>\<open>null\<close> and \<^verbatim>\<open>undefined\<close>, the read otherwise.\<close>

definition js_opt_get :: "jsval \<Rightarrow> string \<Rightarrow> jsval" where
  "js_opt_get v k = (if js_nullish v then JUndefined else js_get v k)"

text \<open>
  \<^verbatim>\<open>String(v)\<close> and the conversion a template literal applies. \<open>None\<close> is the
  TypeError "Cannot convert object to primitive value": a parsed object whose own
  property \<^verbatim>\<open>toString\<close> shadows the inherited method has no callable conversion
  (\<^verbatim>\<open>valueOf\<close>, own or inherited, does not give a primitive either). Any other object
  is \<^verbatim>\<open>[object Object]\<close>; an array is its elements joined by commas, \<^verbatim>\<open>null\<close> and
  \<^verbatim>\<open>undefined\<close> elements as the empty string.
\<close>

fun js_String :: "jsval \<Rightarrow> string option"
  and js_elems :: "jsval list \<Rightarrow> string option" where
  "js_String JUndefined = Some ''undefined''"
| "js_String JNull = Some ''null''"
| "js_String (JBool b) = Some (if b then ''true'' else ''false'')"
| "js_String (JNum t) = Some t"
| "js_String (JStr s) = Some s"
| "js_String (JArr xs) = js_elems xs"
| "js_String (JObj fs) =
     (if map_of fs ''toString'' \<noteq> None then None else Some ''[object Object]'')"
| "js_elems [] = Some []"
| "js_elems (x # xs) =
     (case (if x = JUndefined \<or> x = JNull then Some [] else js_String x) of
        None \<Rightarrow> None
      | Some s \<Rightarrow>
          (if xs = [] then Some s
           else (case js_elems xs of None \<Rightarrow> None | Some r \<Rightarrow> Some (s @ '','' @ r))))"

text \<open>\<^verbatim>\<open>xs.join(sep)\<close> on an array of strings.\<close>

fun js_join :: "string \<Rightarrow> string list \<Rightarrow> string" where
  "js_join sep [] = []"
| "js_join sep [x] = x"
| "js_join sep (x # y # ys) = x @ sep @ js_join sep (y # ys)"

section \<open>HTML escaping\<close>

text \<open>\<^verbatim>\<open>s.replace(/c/g, r)\<close> for a single character \<open>c\<close> and a replacement without \<^verbatim>\<open>$\<close>.\<close>

fun replace_all :: "char \<Rightarrow> string \<Rightarrow> string \<Rightarrow> string" where
  "replace_all c r [] = []"
| "replace_all c r (x # xs) = (if x = c then r else [x]) @ replace_all c r xs"

text \<open>
  The function as the SMTP source declares it. The OAuth2 source has the same body
  under the header \<^verbatim>\<open>function escapeHtml(input: any)\<close>, which is not JavaScript: see
  the section on the two modules.
  \<^verbatim>\<open>
  function escapeHtml(input) {
    return String(input ?? "")
      .replace(/&/g, "&amp;")
      .replace(/</g, "&lt;")
      .replace(/>/g, "&gt;")
      .replace(/"/g, "&quot;")
      .replace(/'/g, "&#039;");
  }
  \<close>
\<close>

definition escapeHtml :: "jsval \<Rightarrow> string option" where
  "escapeHtml input =
     map_option
       (\<lambda>s. replace_all (CHR 0x27) ''&#039;''
             (replace_all (CHR 0x22) ''&quot;''
               (replace_all (CHR ''>'') ''&gt;''
                 (replace_all (CHR ''<'') ''&lt;''
                   (replace_all (CHR ''&'') ''&amp;'' s)))))
       (js_String (js_coalesce input (JStr [])))"

section \<open>Request normaliser\<close>

text \<open>
  \<^verbatim>\<open>
  let body = req.body;
  if (typeof body === "string") {
    try { body = JSON.parse(body); } catch { body = {}; }
  }
  \<close>
  \<^verbatim>\<open>JSON.parse\<close> is the platform's: a parameter, \<open>None\<close> where it throws.
\<close>

definition parse_body :: "(string \<Rightarrow> jsval option) \<Rightarrow> jsval \<Rightarrow> jsval" where
  "parse_body json_parse body =
     (case body of
        JStr s \<Rightarrow> (case json_parse s of None \<Rightarrow> JObj [] | Some v \<Rightarrow> v)
      | _ \<Rightarrow> body)"

text \<open>
  \<^verbatim>\<open>
  const payload =
    body?.payload && typeof body.payload === "object" ? body.payload : body || {};
  \<close>
\<close>

definition select_payload :: "jsval \<Rightarrow> jsval" where
  "select_payload body =
     (if js_truthy (js_opt_get body ''payload'')
         \<and> js_typeof (js_get body ''payload'') = ''object''
      then js_get body ''payload''
      else js_or body (JObj []))"

section \<open>Submission fields and validation\<close>

record submission =
  fullName :: jsval
  userEmail :: jsval
  phone :: jsval
  experience :: jsval
  goals :: jsval
  message :: jsval
  cycle :: jsval
  cycleLabel :: jsval
  pkg :: jsval
  packageLabel :: jsval

text \<open>
  \<^verbatim>\<open>
  const fullName = payload.fullName || payload.name || "Unknown";
  const userEmail = payload.email || "Unknown";
  const phone = payload.phone || payload.whatsapp || "Unknown";
  const experience = payload.experience || "Unknown";
  const goals = payload.goals || "";
  const message = payload.message || "";
  const cycle = payload.cycle || "Unknown";
  const cycleLabel = payload.cycleLabel || cycle;
  const pkg = payload.package || "Unknown";
  const packageLabel = payload.packageLabel || pkg;
  \<close>
\<close>

definition read_fields :: "jsval \<Rightarrow> submission" where
  "read_fields payload =
     (let cycle_v = js_or (js_get payload ''cycle'') (JStr ''Unknown'');
          pkg_v = js_or (js_get payload ''package'') (JStr ''Unknown'')
      in \<lparr> fullName = js_or (js_or (js_get payload ''fullName'') (js_get payload ''name''))
                          (JStr ''Unknown''),
           userEmail = js_or (js_get payload ''email'') (JStr ''Unknown''),
           phone = js_or (js_or (js_get payload ''phone'') (js_get payload ''whatsapp''))
                       (JStr ''Unknown''),
           experience = js_or (js_get payload ''experience'') (JStr ''Unknown''),
           goals = js_or (js_get payload ''goals'') (JStr []),
           message = js_or (js_get payload ''message'') (JStr []),
           cycle = cycle_v,
           cycleLabel = js_or (js_get payload ''cycleLabel'') cycle_v,
           pkg = pkg_v,
           packageLabel = js_or (js_get payload ''packageLabel'') pkg_v \<rparr>)"

text \<open>
  \<^verbatim>\<open>
  const missing = [];
  if (!payload.fullName && !payload.name) missing.push("fullName");
  if (!payload.email) missing.push("email");
  if (!payload.phone && !payload.whatsapp) missing.push("phone");
  if (!payload.cycle && !payload.cycleLabel) missing.push("cycle");
  if (!payload.package && !payload.packageLabel) missing.push("package");
  \<close>
  Each \<open>if\<close> pushes onto the array the one before left.
\<close>

definition missing_fields :: "jsval \<Rightarrow> string list" where
  "missing_fields payload =
     (let m0 = [];
          m1 = (if \<not> js_truthy (js_get payload ''fullName'') \<and> \<not> js_truthy (js_get payload ''name'')
                then m0 @ [''fullName''] else m0);
          m2 = (if \<not> js_truthy (js_get payload ''email'') then m1 @ [''email''] else m1);
          m3 = (if \<not> js_truthy (js_get payload ''phone'') \<and> \<not> js_truthy (js_get payload ''whatsapp'')
                then m2 @ [''phone''] else m2);
          m4 = (if \<not> js_truthy (js_get payload ''cycle'') \<and> \<not> js_truthy (js_get payload ''cycleLabel'')
                then m3 @ [''cycle''] else m3);
          m5 = (if \<not> js_truthy (js_get payload ''package'') \<and> \<not> js_truthy (js_get payload ''packageLabel'')
                then m4 @ [''package''] else m4)
      in m5)"

section \<open>The email template\<close>

text \<open>
  The HTML body is one template literal; its fixed text is cut at the interpolations,
  in the order of the source, each piece a constant below with the whitespace of the
  source. Both variants carry the same template.
\<close>

definition logoBlock :: string where
  \<open>logoBlock = ''
      <div style="display:flex;align-items:center;gap:14px;">
        <div style="width:44px;height:44px;background:#b91c1c;border-radius:999px;display:flex;align-items:center;justify-content:center;">
          <div style="font-family:Arial,Helvetica,sans-serif;font-weight:800;font-style:italic;letter-spacing:-1px;color:#fff;font-size:18px;">
            SBA
          </div>
        </div>
        <div>
          <div style="font-family:Arial,Helvetica,sans-serif;font-weight:800;letter-spacing:3px;text-transform:uppercase;color:#fff;font-size:14px;line-height:1;">
            Silva Boxing Academy
          </div>
          <div style="font-family:Arial,Helvetica,sans-serif;color:#9ca3af;font-size:11px;letter-spacing:2px;text-transform:uppercase;margin-top:6px;">
            Booking Request Notification
          </div>
        </div>
      </div>
    ''\<close>

definition html_open :: string where
  \<open>html_open = ''
      <div style="background:#0a0a0a;padding:28px;margin:0;">
        <div style="max-width:720px;margin:0 auto;border:1px solid #222;background:#111;border-radius:10px;overflow:hidden;">
          
          <div style="padding:22px 22px 18px 22px;border-bottom:1px solid #222;">
            ''\<close>

definition html_to_cycle :: string where
  \<open>html_to_cycle = ''
          </div>

          <div style="padding:22px;">
            <h2 style="margin:0 0 10px 0;font-family:Arial,Helvetica,sans-serif;color:#fff;text-transform:uppercase;letter-spacing:2px;font-size:18px;">
              New Cycle Booking Request
            </h2>
            <p style="margin:0 0 18px 0;color:#9ca3af;font-family:Arial,Helvetica,sans-serif;font-size:13px;line-height:1.6;">
              A user submitted a booking request via the SBA website form. Details below.
            </p>

            <div style="display:block;border:1px solid #222;background:#0b0b0b;border-radius:10px;padding:16px;margin-bottom:16px;">
              <div style="color:#b91c1c;font-family:Arial,Helvetica,sans-serif;font-weight:800;text-transform:uppercase;letter-spacing:2px;font-size:11px;margin-bottom:10px;">
                Booking Selection
              </div>
              <div style="display:flex;gap:12px;flex-wrap:wrap;">
                <div style="flex:1;min-width:220px;border:1px solid #222;border-radius:10px;padding:12px;background:#111;">
                  <div style="color:#9ca3af;font-family:Arial,Helvetica,sans-serif;font-size:11px;text-transform:uppercase;letter-spacing:2px;margin-bottom:6px;">
                    Cycle
                  </div>
                  <div style="color:#fff;font-family:Arial,Helvetica,sans-serif;font-size:14px;font-weight:700;">
                    ''\<close>

definition html_to_package :: string where
  \<open>html_to_package = ''
                  </div>
                </div>

                <div style="flex:1;min-width:220px;border:1px solid #222;border-radius:10px;padding:12px;background:#111;">
                  <div style="color:#9ca3af;font-family:Arial,Helvetica,sans-serif;font-size:11px;text-transform:uppercase;letter-spacing:2px;margin-bottom:6px;">
                    Package
                  </div>
                  <div style="color:#fff;font-family:Arial,Helvetica,sans-serif;font-size:14px;font-weight:700;">
                    ''\<close>

definition html_to_name :: string where
  \<open>html_to_name = ''
                  </div>
                </div>
              </div>
            </div>

            <div style="border:1px solid #222;background:#0b0b0b;border-radius:10px;padding:16px;margin-bottom:16px;">
              <div style="color:#b91c1c;font-family:Arial,Helvetica,sans-serif;font-weight:800;text-transform:uppercase;letter-spacing:2px;font-size:11px;margin-bottom:10px;">
                Contact Details
              </div>

              <table style="width:100%;border-collapse:collapse;">
                <tr>
                  <td style="padding:8px 0;color:#9ca3af;font-family:Arial,Helvetica,sans-serif;font-size:12px;text-transform:uppercase;letter-spacing:2px;width:160px;">
                    Full Name
                  </td>
                  <td style="padding:8px 0;color:#fff;font-family:Arial,Helvetica,sans-serif;font-size:13px;font-weight:700;">
                    ''\<close>

definition html_to_email :: string where
  \<open>html_to_email = ''
                  </td>
                </tr>
                <tr>
                  <td style="padding:8px 0;color:#9ca3af;font-family:Arial,Helvetica,sans-serif;font-size:12px;text-transform:uppercase;letter-spacing:2px;">
                    Email
                  </td>
                  <td style="padding:8px 0;color:#fff;font-family:Arial,Helvetica,sans-serif;font-size:13px;">
                    ''\<close>

definition html_to_phone :: string where
  \<open>html_to_phone = ''
                  </td>
                </tr>
                <tr>
                  <td style="padding:8px 0;color:#9ca3af;font-family:Arial,Helvetica,sans-serif;font-size:12px;text-transform:uppercase;letter-spacing:2px;">
                    Phone / WhatsApp
                  </td>
                  <td style="padding:8px 0;color:#fff;font-family:Arial,Helvetica,sans-serif;font-size:13px;">
                    ''\<close>

definition html_to_experience :: string where
  \<open>html_to_experience = ''
                  </td>
                </tr>
                <tr>
                  <td style="padding:8px 0;color:#9ca3af;font-family:Arial,Helvetica,sans-serif;font-size:12px;text-transform:uppercase;letter-spacing:2px;">
                    Experience
                  </td>
                  <td style="padding:8px 0;color:#fff;font-family:Arial,Helvetica,sans-serif;font-size:13px;">
                    ''\<close>

definition html_to_notes :: string where
  \<open>html_to_notes = ''
                  </td>
                </tr>
              </table>
            </div>

            ''\<close>

definition notes_open :: string where
  \<open>notes_open = ''
              <div style="border:1px solid #222;background:#0b0b0b;border-radius:10px;padding:16px;margin-bottom:16px;">
                <div style="color:#b91c1c;font-family:Arial,Helvetica,sans-serif;font-weight:800;text-transform:uppercase;letter-spacing:2px;font-size:11px;margin-bottom:10px;">
                  Notes
                </div>
                ''\<close>

definition goals_open :: string where
  \<open>goals_open = ''
                  <div style="margin-bottom:10px;">
                    <div style="color:#9ca3af;font-family:Arial,Helvetica,sans-serif;font-size:12px;text-transform:uppercase;letter-spacing:2px;margin-bottom:6px;">
                      Primary Goals
                    </div>
                    <div style="color:#fff;font-family:Arial,Helvetica,sans-serif;font-size:13px;line-height:1.6;">
                      ''\<close>

definition goals_close :: string where
  \<open>goals_close = ''
                    </div>
                  </div>
                ''\<close>

definition notes_mid :: string where
  \<open>notes_mid = ''
                ''\<close>

definition message_open :: string where
  \<open>message_open = ''
                  <div>
                    <div style="color:#9ca3af;font-family:Arial,Helvetica,sans-serif;font-size:12px;text-transform:uppercase;letter-spacing:2px;margin-bottom:6px;">
                      Message
                    </div>
                    <div style="color:#fff;font-family:Arial,Helvetica,sans-serif;font-size:13px;line-height:1.6;white-space:pre-wrap;">
                      ''\<close>

definition message_close :: string where
  \<open>message_close = ''
                    </div>
                  </div>
                ''\<close>

definition notes_close :: string where
  \<open>notes_close = ''
              </div>
            ''\<close>

definition html_to_received :: string where
  \<open>html_to_received = ''

            <div style="padding-top:10px;border-top:1px solid #222;color:#6b7280;font-family:Arial,Helvetica,sans-serif;font-size:11px;line-height:1.6;">
              Received: ''\<close>

definition html_close :: string where
  \<open>html_close = '' (Europe/Berlin)<br/>
              This email was generated automatically from the SBA Cycle Booking Form.
            </div>
          </div>
        </div>
      </div>
    ''\<close>

section \<open>Email renderer\<close>

text \<open>
  The optional Notes panel of the template:
  \<^verbatim>\<open>${(goals || message) ? `... ${goals ? `... ${escapeHtml(goals)} ...` : ""}
     ... ${message ? `... ${escapeHtml(message)} ...` : ""} ...` : ""}\<close>.
  \<open>None\<close> is the TypeError of a conversion to string, which leaves the template.
\<close>

definition render_notes :: "submission \<Rightarrow> string option" where
  "render_notes s =
     (if js_truthy (js_or (goals s) (message s)) then
        do {
          g \<leftarrow> (if js_truthy (goals s)
                then do { e \<leftarrow> escapeHtml (goals s); Some (goals_open @ e @ goals_close) }
                else Some []);
          m \<leftarrow> (if js_truthy (message s)
                then do { e \<leftarrow> escapeHtml (message s); Some (message_open @ e @ message_close) }
                else Some []);
          Some (notes_open @ g @ notes_mid @ m @ notes_close)
        }
      else Some [])"

text \<open>
  \<^verbatim>\<open>const html = `...`\<close>: the interpolations are evaluated from left to right;
  \<open>now\<close> is \<^verbatim>\<open>new Date().toLocaleString("en-GB", { timeZone: "Europe/Berlin" })\<close>.
\<close>

definition render_html :: "submission \<Rightarrow> string \<Rightarrow> string option" where
  "render_html s now =
     do {
       c \<leftarrow> escapeHtml (cycleLabel s);
       p \<leftarrow> escapeHtml (packageLabel s);
       n \<leftarrow> escapeHtml (fullName s);
       e \<leftarrow> escapeHtml (userEmail s);
       ph \<leftarrow> escapeHtml (phone s);
       x \<leftarrow> escapeHtml (experience s);
       notes \<leftarrow> render_notes s;
       t \<leftarrow> escapeHtml (JStr now);
       Some (html_open @ logoBlock @ html_to_cycle @ c @ html_to_package @ p
             @ html_to_name @ n @ html_to_email @ e @ html_to_phone @ ph
             @ html_to_experience @ x @ html_to_notes @ notes
             @ html_to_received @ t @ html_close)
     }"

text \<open>The em dash U+2014, the cross mark U+274C and the check mark U+2705, in UTF-8.\<close>

definition em_dash :: string where
  "em_dash = [CHR 0xE2, CHR 0x80, CHR 0x94]"

definition cross_mark :: string where
  "cross_mark = [CHR 0xE2, CHR 0x9D, CHR 0x8C]"

definition check_mark :: string where
  "check_mark = [CHR 0xE2, CHR 0x9C, CHR 0x85]"

text \<open>\<^verbatim>\<open>const subject = `SBA Booking Request -- ${fullName} -- ${cycleLabel}`;\<close>\<close>

definition render_subject :: "submission \<Rightarrow> string option" where
  "render_subject s =
     do {
       n \<leftarrow> js_String (fullName s);
       c \<leftarrow> js_String (cycleLabel s);
       Some (''SBA Booking Request '' @ em_dash @ '' '' @ n @ '' '' @ em_dash @ '' '' @ c)
     }"

record mail_options =
  mail_from :: string
  mail_to :: string
  replyTo :: jsval
  subject :: string
  html :: string

text \<open>
  \<^verbatim>\<open>
  const mailOptions = {
    from: `"SBA Website" <${sender}>`,
    to: TO_EMAIL,
    replyTo: userEmail !== "Unknown" ? userEmail : undefined,
    subject,
    html
  };
  \<close>
  after the HTML and the subject; \<open>sender\<close> is \<^verbatim>\<open>GMAIL_SENDER\<close> in the OAuth2
  variant and \<^verbatim>\<open>process.env.SMTP_USER\<close> in the SMTP variant.
\<close>

definition build_mail :: "submission \<Rightarrow> string \<Rightarrow> string \<Rightarrow> string \<Rightarrow> mail_options option" where
  \<open>build_mail s now sender to_email =
     do {
       h \<leftarrow> render_html s now;
       sj \<leftarrow> render_subject s;
       Some \<lparr> mail_from = ''"SBA Website" <'' @ sender @ ''>'',
              mail_to = to_email,
              replyTo = (if userEmail s \<noteq> JStr ''Unknown'' then userEmail s else JUndefined),
              subject = sj,
              html = h \<rparr>
     }\<close>

section \<open>Platform, transport and response\<close>

text \<open>A thrown \<^verbatim>\<open>Error\<close> object: its \<^verbatim>\<open>name\<close> and its \<^verbatim>\<open>message\<close>.\<close>

record js_error =
  err_name :: string
  err_message :: string

text \<open>\<^verbatim>\<open>String(err)\<close>, that is \<^verbatim>\<open>Error.prototype.toString\<close>.\<close>

definition err_String :: "js_error \<Rightarrow> string" where
  "err_String e =
     (if err_name e = [] then err_message e
      else if err_message e = [] then err_name e
      else err_name e @ '': '' @ err_message e)"

text \<open>\<^verbatim>\<open>err?.message || String(err)\<close>\<close>

definition err_text :: "js_error \<Rightarrow> string" where
  "err_text e = (if err_message e \<noteq> [] then err_message e else err_String e)"

definition type_error :: "string \<Rightarrow> js_error" where
  "type_error msg = \<lparr> err_name = ''TypeError'', err_message = msg \<rparr>"

datatype token_response = TokenResponse (token: "string option")

datatype transport =
    GmailOAuth2 string "string option" "string option" "string option" string
  | Smtp "string option" jsval bool "string option" "string option"

text \<open>
  What the handler gets from outside: \<^verbatim>\<open>JSON.parse\<close> (\<open>None\<close> where it throws),
  \<^verbatim>\<open>process.env\<close>, the formatted current time, \<^verbatim>\<open>parseInt(s, 10)\<close>, the
  token exchange \<^verbatim>\<open>oAuth2Client.getAccessToken()\<close> of a client made from the three
  secrets (\<open>Inl\<close> where it throws, \<open>Inr None\<close> a null response), and
  \<^verbatim>\<open>transporter.sendMail(mailOptions)\<close> (\<open>Some err\<close> where it throws).
  Making the OAuth2 client and the transporter, logging and \<^verbatim>\<open>res.json\<close> are taken
  to return: they connect to nothing, and the sources do not guard them.
\<close>

record platform =
  json_parse :: "string \<Rightarrow> jsval option"
  process_env :: "string \<Rightarrow> string option"
  date_now :: string
  parseInt10 :: "string \<Rightarrow> jsval"
  getAccessToken :: "string option \<Rightarrow> string option \<Rightarrow> string option
                       \<Rightarrow> js_error + token_response option"
  sendMail :: "transport \<Rightarrow> mail_options \<Rightarrow> js_error option"

text \<open>The calls the handler makes on the outside, in the order it makes them.\<close>

datatype effect =
    TokenExchange "string option" "string option" "string option"
  | CreateTransport transport
  | SendMail transport mail_options
  | LogInfo string
  | LogError string string

record response =
  status :: nat
  ok :: bool
  error :: "string option"

text \<open>
  Modelled from the spec: the platform's \<^verbatim>\<open>res.json(body, status)\<close> is not part of
  the sources; a call without a status answers 200 (``success \<rightarrow> 200 with {ok: true}'').
\<close>

definition res_json :: "bool \<Rightarrow> string option \<Rightarrow> nat option \<Rightarrow> response" where
  "res_json ok_v error_v status_v =
     \<lparr> status = (case status_v of None \<Rightarrow> 200 | Some c \<Rightarrow> c), ok = ok_v, error = error_v \<rparr>"

text \<open>\<^verbatim>\<open>!v\<close>, \<^verbatim>\<open>v || d\<close> and \<^verbatim>\<open>`${v}`\<close> on an environment variable.\<close>

definition env_truthy :: "string option \<Rightarrow> bool" where
  "env_truthy v = (v \<noteq> None \<and> v \<noteq> Some [])"

definition env_or :: "string option \<Rightarrow> string \<Rightarrow> string" where
  "env_or v d = (case v of None \<Rightarrow> d | Some s \<Rightarrow> if s = [] then d else s)"

definition env_template :: "string option \<Rightarrow> string" where
  "env_template v = (case v of None \<Rightarrow> ''undefined'' | Some s \<Rightarrow> s)"

section \<open>The handler\<close>

text \<open>
  The validation answer:
  \<^verbatim>\<open>res.json({ ok: false, error: `Missing required fields: ${missing.join(", ")}` }, 400)\<close>
\<close>

definition validation_response :: "string list \<Rightarrow> response" where
  "validation_response missing =
     res_json False (Some (''Missing required fields: '' @ js_join '', '' missing)) (Some 400)"

text \<open>
  The end of the \<^verbatim>\<open>try\<close> block, the same in both variants: render, build the mail
  options, \<^verbatim>\<open>await transporter.sendMail(mailOptions)\<close>, log, \<^verbatim>\<open>res.json({ ok: true })\<close>.
  \<open>Inl\<close> is an exception on its way to the \<^verbatim>\<open>catch\<close>.
\<close>

definition send_and_reply ::
  "platform \<Rightarrow> transport \<Rightarrow> string \<Rightarrow> string \<Rightarrow> submission \<Rightarrow> string
     \<Rightarrow> effect list \<times> (js_error + response)" where
  "send_and_reply pf tr sender to_email sub sent_text =
     (case build_mail sub (date_now pf) sender to_email of
        None \<Rightarrow> ([], Inl (type_error ''Cannot convert object to primitive value''))
      | Some mail \<Rightarrow>
          (case sendMail pf tr mail of
             Some err \<Rightarrow> ([SendMail tr mail], Inl err)
           | None \<Rightarrow> ([SendMail tr mail, LogInfo sent_text], Inr (res_json True None None))))"

text \<open>
  \<^verbatim>\<open>
  } catch (err) {
    error("SBA email sending failed:", err?.message || String(err));
    return res.json({ ok: false, error: err?.message || String(err) }, 500);
  }
  \<close>
\<close>

definition catch_top :: "effect list \<times> (js_error + response) \<Rightarrow> effect list \<times> response" where
  "catch_top r =
     (case r of
        (fx, Inl err) \<Rightarrow>
          (fx @ [LogError (cross_mark @ '' SBA email sending failed:'') (err_text err)],
           res_json False (Some (err_text err)) (Some 500))
      | (fx, Inr resp) \<Rightarrow> (fx, resp))"

subsection \<open>Gmail OAuth2 variant\<close>

text \<open>
  \<^verbatim>\<open>
  let accessToken = "";
  try {
    const tokenResponse = await oAuth2Client.getAccessToken();
    accessToken = tokenResponse?.token || "";
    if (!accessToken) throw new Error("Empty access token returned.");
  } catch (e) {
    error("Failed to mint Gmail access token:", e?.message || String(e));
    return res.json({ ok: false, error: "Failed to mint Gmail access token." }, 500);
  }
  \<close>
  \<open>None\<close> is the return from the \<^verbatim>\<open>catch\<close>.
\<close>

definition mint_access_token ::
  "platform \<Rightarrow> string option \<Rightarrow> string option \<Rightarrow> string option
     \<Rightarrow> effect list \<times> string option" where
  "mint_access_token pf client_id client_secret refresh_token =
     (case (case getAccessToken pf client_id client_secret refresh_token of
              Inl e \<Rightarrow> Inl e
            | Inr tokenResponse \<Rightarrow>
                (let accessToken =
                       (case tokenResponse of
                          None \<Rightarrow> []
                        | Some r \<Rightarrow> (case token r of None \<Rightarrow> [] | Some t \<Rightarrow> t))
                 in if accessToken = []
                    then Inl \<lparr> err_name = ''Error'', err_message = ''Empty access token returned.'' \<rparr>
                    else Inr accessToken)) of
        Inl e \<Rightarrow>
          ([TokenExchange client_id client_secret refresh_token,
            LogError (cross_mark @ '' Failed to mint Gmail access token:'') (err_text e)],
           None)
      | Inr accessToken \<Rightarrow>
          ([TokenExchange client_id client_secret refresh_token], Some accessToken))"

definition oauth2_try :: "platform \<Rightarrow> jsval \<Rightarrow> effect list \<times> (js_error + response)" where
  "oauth2_try pf req_body =
     (let body = parse_body (json_parse pf) req_body;
          payload = select_payload body
      in if js_nullish payload
         then ([], Inl (type_error ''Cannot read properties of undefined''))
         else
           let sub = read_fields payload;
               missing = missing_fields payload
           in if missing \<noteq> [] then ([], Inr (validation_response missing))
              else
                let GOOGLE_CLIENT_ID = process_env pf ''GOOGLE_CLIENT_ID'';
                    GOOGLE_CLIENT_SECRET = process_env pf ''GOOGLE_CLIENT_SECRET'';
                    GOOGLE_REFRESH_TOKEN = process_env pf ''GOOGLE_REFRESH_TOKEN'';
                    GMAIL_SENDER =
                      env_or (process_env pf ''GMAIL_SENDER'') ''silvaboxingacademy@gmail.com'';
                    TO_EMAIL =
                      env_or (process_env pf ''SBA_ADMIN_EMAIL'') ''silvaboxingacademy@gmail.com''
                in if \<not> env_truthy GOOGLE_CLIENT_ID \<or> \<not> env_truthy GOOGLE_CLIENT_SECRET
                      \<or> \<not> env_truthy GOOGLE_REFRESH_TOKEN
                   then ([], Inr (res_json False
                           (Some ''Missing Gmail OAuth env vars. Required: GOOGLE_CLIENT_ID, GOOGLE_CLIENT_SECRET, GOOGLE_REFRESH_TOKEN'')
                           (Some 500)))
                   else
                     (case mint_access_token pf GOOGLE_CLIENT_ID GOOGLE_CLIENT_SECRET
                             GOOGLE_REFRESH_TOKEN of
                        (fx, None) \<Rightarrow>
                          (fx, Inr (res_json False (Some ''Failed to mint Gmail access token.'')
                                      (Some 500)))
                      | (fx, Some accessToken) \<Rightarrow>
                          (let transporter =
                                 GmailOAuth2 GMAIL_SENDER GOOGLE_CLIENT_ID GOOGLE_CLIENT_SECRET
                                   GOOGLE_REFRESH_TOKEN accessToken;
                               (fx', r) =
                                 send_and_reply pf transporter GMAIL_SENDER TO_EMAIL sub
                                   (check_mark @ '' SBA booking email sent (Gmail OAuth2).'')
                           in (fx @ [CreateTransport transporter] @ fx', r))))"

text \<open>
  The handler that the text of \<^verbatim>\<open>index.js\<close> describes, \<^verbatim>\<open>try\<close> and \<^verbatim>\<open>catch\<close>. It
  runs only if its module loads, which \<open>index_js\<close> below decides: what is stated of
  \<open>main_oauth2\<close> is stated of the handler as written.
\<close>

definition main_oauth2 :: "platform \<Rightarrow> jsval \<Rightarrow> effect list \<times> response" where
  "main_oauth2 pf req_body = catch_top (oauth2_try pf req_body)"

subsection \<open>SMTP variant\<close>

text \<open>
  \<^verbatim>\<open>
  const transporter = nodemailer.createTransport({
    host: process.env.SMTP_HOST,
    port: parseInt(process.env.SMTP_PORT || "587", 10),
    secure: process.env.SMTP_SECURE === "true",
    auth: { user: process.env.SMTP_USER, pass: process.env.SMTP_PASS }
  });
  const TO_EMAIL = process.env.SBA_ADMIN_EMAIL || "silvaboxingacademy@gmail.com";
  \<close>
  follows the validation at once: this variant tests no configuration.
\<close>

definition smtp_try :: "platform \<Rightarrow> jsval \<Rightarrow> effect list \<times> (js_error + response)" where
  "smtp_try pf req_body =
     (let body = parse_body (json_parse pf) req_body;
          payload = select_payload body
      in if js_nullish payload
         then ([], Inl (type_error ''Cannot read properties of undefined''))
         else
           let sub = read_fields payload;
               missing = missing_fields payload
           in if missing \<noteq> [] then ([], Inr (validation_response missing))
              else
                let transporter =
                      Smtp (process_env pf ''SMTP_HOST'')
                           (parseInt10 pf (env_or (process_env pf ''SMTP_PORT'') ''587''))
                           (process_env pf ''SMTP_SECURE'' = Some ''true'')
                           (process_env pf ''SMTP_USER'')
                           (process_env pf ''SMTP_PASS'');
                    TO_EMAIL =
                      env_or (process_env pf ''SBA_ADMIN_EMAIL'') ''silvaboxingacademy@gmail.com'';
                    (fx, r) =
                      send_and_reply pf transporter (env_template (process_env pf ''SMTP_USER''))
                        TO_EMAIL sub (check_mark @ '' SBA booking email sent.'')
                in (CreateTransport transporter # fx, r))"

definition main_smtp :: "platform \<Rightarrow> jsval \<Rightarrow> effect list \<times> response" where
  "main_smtp pf req_body = catch_top (smtp_try pf req_body)"

section \<open>The two modules\<close>

text \<open>
  Each source is a JavaScript ES module whose default export is its handler; the
  platform parses the module before it can call the handler, and a module that does not
  parse exports nothing. Of the syntax, the one place where the two sources differ is
  modelled: the formal parameter list of the declaration of \<open>escapeHtml\<close>, as its
  tokens. The SMTP source writes \<^verbatim>\<open>function escapeHtml(input)\<close>, the OAuth2 source
  \<^verbatim>\<open>function escapeHtml(input: any)\<close> (line 302 of \<^verbatim>\<open>index.js\<close>). A parameter list
  of plain parameters is identifiers separated by commas, which is all that either list
  could be; a colon after a parameter is a type annotation of TypeScript, and a syntax
  error in JavaScript.
\<close>

definition js_identifier_start :: "char \<Rightarrow> bool" where
  "js_identifier_start c =
     (let n = (of_char c :: nat)
      in (65 \<le> n \<and> n \<le> 90) \<or> (97 \<le> n \<and> n \<le> 122) \<or> c = CHR ''_'' \<or> c = CHR ''$'')"

definition js_identifier_part :: "char \<Rightarrow> bool" where
  "js_identifier_part c =
     (js_identifier_start c \<or> (let n = (of_char c :: nat) in 48 \<le> n \<and> n \<le> 57))"

fun js_identifier :: "string \<Rightarrow> bool" where
  "js_identifier [] = False"
| "js_identifier (c # cs) = (js_identifier_start c \<and> list_all js_identifier_part cs)"

fun js_formal_parameters :: "string list \<Rightarrow> bool" where
  "js_formal_parameters [] = True"
| "js_formal_parameters [x] = js_identifier x"
| "js_formal_parameters (x # sep # xs) =
     (js_identifier x \<and> sep = '','' \<and> xs \<noteq> [] \<and> js_formal_parameters xs)"

datatype 'h js_module = SyntaxError | Exports 'h

text \<open>Parsing a module whose text is the handler and \<open>escapeHtml\<close> with these parameters.\<close>

definition load_module :: "string list \<Rightarrow> 'h \<Rightarrow> 'h js_module" where
  "load_module escapeHtml_parameters handler =
     (if js_formal_parameters escapeHtml_parameters then Exports handler else SyntaxError)"

definition index_js :: "(platform \<Rightarrow> jsval \<Rightarrow> effect list \<times> response) js_module" where
  "index_js = load_module [''input'', '':'', ''any''] main_oauth2"

definition smtp_js :: "(platform \<Rightarrow> jsval \<Rightarrow> effect list \<times> response) js_module" where
  "smtp_js = load_module [''input''] main_smtp"

text \<open>
  A request to the deployed function: the handler's calls and answer, or \<open>None\<close> where
  there is no handler to call, and so no answer of the handler's.
\<close>

definition invoke ::
  "(platform \<Rightarrow> jsval \<Rightarrow> effect list \<times> response) js_module \<Rightarrow> platform \<Rightarrow> jsval
     \<Rightarrow> (effect list \<times> response) option" where
  "invoke m pf req_body = (case m of SyntaxError \<Rightarrow> None | Exports handler \<Rightarrow> Some (handler pf req_body))"

section \<open>Properties of the rendered text\<close>

text \<open>The characters that open or close markup, and an attribute value.\<close>

definition is_markup :: "char \<Rightarrow> bool" where
  "is_markup c = (c = CHR ''<'' \<or> c = CHR ''>'' \<or> c = CHR 0x22)"

text \<open>
  Every ampersand of the text starts one of the five character references that
  \<open>escapeHtml\<close> writes.
\<close>

definition entities :: "string list" where
  "entities = [''amp;'', ''lt;'', ''gt;'', ''quot;'', ''#039;'']"

fun amp_escaped :: "string \<Rightarrow> bool" where
  "amp_escaped [] = True"
| "amp_escaped (c # cs) =
     ((c \<noteq> CHR ''&'' \<or> list_ex (\<lambda>e. take (length e) cs = e) entities) \<and> amp_escaped cs)"

text \<open>
  The template's own text: the HTML body with every interpolated value left out,
  \<open>g\<close> and \<open>m\<close> telling whether the goals and the message panels are shown.
\<close>

definition html_skeleton :: "bool \<Rightarrow> bool \<Rightarrow> string" where
  "html_skeleton g m =
     html_open @ logoBlock @ html_to_cycle @ html_to_package @ html_to_name @ html_to_email
     @ html_to_phone @ html_to_experience @ html_to_notes
     @ (if g \<or> m
        then notes_open @ (if g then goals_open @ goals_close else [])
             @ notes_mid @ (if m then message_open @ message_close else []) @ notes_close
        else [])
     @ html_to_received @ html_close"

text \<open>What \<open>escapeHtml\<close> does to one character, and to a text character by character.\<close>

definition esc_char :: "char \<Rightarrow> string" where
  "esc_char c =
     (if c = CHR ''&'' then ''&amp;''
      else if c = CHR ''<'' then ''&lt;''
      else if c = CHR ''>'' then ''&gt;''
      else if c = CHR 0x22 then ''&quot;''
      else if c = CHR 0x27 then ''&#039;''
      else [c])"

definition esc_text :: "string \<Rightarrow> string" where
  "esc_text s = concat (map esc_char s)"

section \<open>Names for the statements\<close>

text \<open>The submission source of a request: the normaliser's output.\<close>

definition payload_of :: "platform \<Rightarrow> jsval \<Rightarrow> jsval" where
  "payload_of pf req_body = select_payload (parse_body (json_parse pf) req_body)"

text \<open>A value that is an object in JavaScript's sense: a record or an array.\<close>

fun is_object :: "jsval \<Rightarrow> bool" where
  "is_object (JObj fs) = True"
| "is_object (JArr xs) = True"
| "is_object v = False"

text \<open>
  The decoded value has a property \<^verbatim>\<open>payload\<close> that is itself an object.
\<close>

definition has_object_payload :: "jsval \<Rightarrow> bool" where
  "has_object_payload d = (\<not> js_nullish d \<and> is_object (js_get d ''payload''))"

text \<open>
  The five required fields under their canonical names, in the order of the report, and
  what it is for one of them to be missing: none of the properties that can supply it
  is bound to a truthy value.
\<close>

definition required_fields :: "string list" where
  "required_fields = [''fullName'', ''email'', ''phone'', ''cycle'', ''package'']"

definition suppliers :: "string \<Rightarrow> string list" where
  "suppliers n =
     (if n = ''fullName'' then [''fullName'', ''name'']
      else if n = ''email'' then [''email'']
      else if n = ''phone'' then [''phone'', ''whatsapp'']
      else if n = ''cycle'' then [''cycle'', ''cycleLabel'']
      else if n = ''package'' then [''package'', ''packageLabel'']
      else [])"

definition field_missing :: "jsval \<Rightarrow> string \<Rightarrow> bool" where
  "field_missing payload n = (\<not> list_ex (\<lambda>k. js_truthy (js_get payload k)) (suppliers n))"

text \<open>The configuration of the two variants, as the handlers read it.\<close>

definition oauth2_config_ok :: "platform \<Rightarrow> bool" where
  "oauth2_config_ok pf =
     (env_truthy (process_env pf ''GOOGLE_CLIENT_ID'')
      \<and> env_truthy (process_env pf ''GOOGLE_CLIENT_SECRET'')
      \<and> env_truthy (process_env pf ''GOOGLE_REFRESH_TOKEN''))"

definition oauth2_config_error :: string where
  "oauth2_config_error =
     ''Missing Gmail OAuth env vars. Required: GOOGLE_CLIENT_ID, GOOGLE_CLIENT_SECRET, GOOGLE_REFRESH_TOKEN''"

definition gmail_sender :: "platform \<Rightarrow> string" where
  "gmail_sender pf = env_or (process_env pf ''GMAIL_SENDER'') ''silvaboxingacademy@gmail.com''"

definition admin_email :: "platform \<Rightarrow> string" where
  "admin_email pf = env_or (process_env pf ''SBA_ADMIN_EMAIL'') ''silvaboxingacademy@gmail.com''"

definition token_exchange :: "platform \<Rightarrow> js_error + token_response option" where
  "token_exchange pf =
     getAccessToken pf (process_env pf ''GOOGLE_CLIENT_ID'')
       (process_env pf ''GOOGLE_CLIENT_SECRET'') (process_env pf ''GOOGLE_REFRESH_TOKEN'')"

definition exchange_effect :: "platform \<Rightarrow> effect" where
  "exchange_effect pf =
     TokenExchange (process_env pf ''GOOGLE_CLIENT_ID'')
       (process_env pf ''GOOGLE_CLIENT_SECRET'') (process_env pf ''GOOGLE_REFRESH_TOKEN'')"

text \<open>The exchange throws, or answers without a token, or with the empty token.\<close>

definition token_exchange_fails :: "platform \<Rightarrow> bool" where
  "token_exchange_fails pf =
     (case token_exchange pf of
        Inl e \<Rightarrow> True
      | Inr None \<Rightarrow> True
      | Inr (Some r) \<Rightarrow> token r = None \<or> token r = Some [])"

text \<open>
  The token the exchange gave, the error the \<^verbatim>\<open>catch\<close> of the exchange logs, and the
  TypeError of a failed conversion to string.
\<close>

definition minted_token :: "platform \<Rightarrow> string" where
  "minted_token pf =
     (case token_exchange pf of
        Inr (Some r) \<Rightarrow> (case token r of None \<Rightarrow> [] | Some t \<Rightarrow> t)
      | _ \<Rightarrow> [])"

definition mint_error :: "platform \<Rightarrow> js_error" where
  "mint_error pf =
     (case token_exchange pf of
        Inl e \<Rightarrow> e
      | Inr r \<Rightarrow> \<lparr> err_name = ''Error'', err_message = ''Empty access token returned.'' \<rparr>)"

definition conversion_error :: js_error where
  "conversion_error = type_error ''Cannot convert object to primitive value''"

definition oauth2_transport :: "platform \<Rightarrow> string \<Rightarrow> transport" where
  "oauth2_transport pf access_token =
     GmailOAuth2 (gmail_sender pf) (process_env pf ''GOOGLE_CLIENT_ID'')
       (process_env pf ''GOOGLE_CLIENT_SECRET'') (process_env pf ''GOOGLE_REFRESH_TOKEN'')
       access_token"

definition smtp_transport :: "platform \<Rightarrow> transport" where
  "smtp_transport pf =
     Smtp (process_env pf ''SMTP_HOST'')
          (parseInt10 pf (env_or (process_env pf ''SMTP_PORT'') ''587''))
          (process_env pf ''SMTP_SECURE'' = Some ''true'')
          (process_env pf ''SMTP_USER'')
          (process_env pf ''SMTP_PASS'')"

text \<open>The mail options each variant builds for a request (\<open>None\<close>: a TypeError).\<close>

definition oauth2_mail :: "platform \<Rightarrow> jsval \<Rightarrow> mail_options option" where
  "oauth2_mail pf req_body =
     build_mail (read_fields (payload_of pf req_body)) (date_now pf)
       (gmail_sender pf) (admin_email pf)"

definition smtp_mail :: "platform \<Rightarrow> jsval \<Rightarrow> mail_options option" where
  "smtp_mail pf req_body =
     build_mail (read_fields (payload_of pf req_body)) (date_now pf)
       (env_template (process_env pf ''SMTP_USER'')) (admin_email pf)"

text \<open>The sender header of the mail: the fixed display name and the sender's address.\<close>

definition sender_header :: "string \<Rightarrow> string" where
  \<open>sender_header address = ''"SBA Website" <'' @ address @ ''>''\<close>

definition sent_oauth2 :: string where
  "sent_oauth2 = check_mark @ '' SBA booking email sent (Gmail OAuth2).''"

definition sent_smtp :: string where
  "sent_smtp = check_mark @ '' SBA booking email sent.''"

definition send_failed :: string where
  "send_failed = cross_mark @ '' SBA email sending failed:''"

definition mint_failed :: string where
  "mint_failed = cross_mark @ '' Failed to mint Gmail access token:''"

section \<open>Example requests\<close>

definition example_payload :: jsval where
  "example_payload =
     JObj [(''fullName'', JStr ''Ana <script>''),
           (''email'', JStr ''ana@example.org''),
           (''whatsapp'', JStr ''+49 30 1234''),
           (''cycle'', JStr ''cycle-1''),
           (''package'', JStr ''p3'')]"

definition example_json :: string where
  \<open>example_json = ''{"payload":{"fullName":"Ana <script>","email":"ana@example.org","whatsapp":"+49 30 1234","cycle":"cycle-1","package":"p3"}}''\<close>

definition example_env :: "string \<Rightarrow> string option" where
  "example_env =
     [''GOOGLE_CLIENT_ID'' \<mapsto> ''client-id'',
      ''GOOGLE_CLIENT_SECRET'' \<mapsto> ''client-secret'',
      ''GOOGLE_REFRESH_TOKEN'' \<mapsto> ''refresh-token'',
      ''SMTP_HOST'' \<mapsto> ''smtp.example.org'',
      ''SMTP_USER'' \<mapsto> ''sba@example.org'',
      ''SMTP_PASS'' \<mapsto> ''secret'']"

text \<open>
  A platform whose parser knows \<open>example_json\<close> and \<^verbatim>\<open>null\<close>, whose token exchange
  answers with a token and whose send succeeds.
\<close>

definition example_platform :: platform where
  "example_platform =
     \<lparr> json_parse = (\<lambda>s. if s = example_json then Some (JObj [(''payload'', example_payload)])
                          else if s = ''null'' then Some JNull
                          else None),
       process_env = example_env,
       date_now = ''02/11/2026, 10:15:00'',
       parseInt10 = JNum,
       getAccessToken = (\<lambda>i s r. Inr (Some (TokenResponse (Some ''ya29.token'')))),
       sendMail = (\<lambda>tr m. None) \<rparr>"

text \<open>The same platform with a send that throws \<open>err\<close>, and without any configuration.\<close>

definition failing_send :: "js_error \<Rightarrow> platform" where
  "failing_send err = example_platform \<lparr> sendMail := (\<lambda>tr m. Some err) \<rparr>"

definition no_config :: "platform \<Rightarrow> platform" where
  "no_config pf = pf \<lparr> process_env := (\<lambda>k. None) \<rparr>"

text \<open>The mail the example payload gives, for a sender and a recipient.\<close>

definition example_html_body :: string where
  "example_html_body =
     html_open @ logoBlock @ html_to_cycle @ ''cycle-1'' @ html_to_package @ ''p3''
     @ html_to_name @ ''Ana &lt;script&gt;'' @ html_to_email @ ''ana@example.org''
     @ html_to_phone @ ''+49 30 1234'' @ html_to_experience @ ''Unknown''
     @ html_to_notes @ html_to_received @ ''02/11/2026, 10:15:00'' @ html_close"

definition example_mail :: "string \<Rightarrow> string \<Rightarrow> mail_options" where
  \<open>example_mail sender to_email =
     \<lparr> mail_from = ''"SBA Website" <'' @ sender @ ''>'',
       mail_to = to_email,
       replyTo = JStr ''ana@example.org'',
       subject = ''SBA Booking Request '' @ em_dash @ '' Ana <script> '' @ em_dash @ '' cycle-1'',
       html = example_html_body \<rparr>\<close>

text \<open>Send errors of the examples: a refused connection, and an error without a message.\<close>

definition refused :: js_error where
  "refused = \<lparr> err_name = ''Error'', err_message = ''connect ECONNREFUSED 127.0.0.1:587'' \<rparr>"

definition bare_error :: js_error where
  "bare_error = \<lparr> err_name = ''Error'', err_message = [] \<rparr>"

text \<open>
  A payload that passes validation and cannot be rendered: its name is an object whose
  own \<^verbatim>\<open>toString\<close> is not a function.
\<close>

definition unprintable_payload :: jsval where
  "unprintable_payload =
     JObj [(''fullName'', JObj [(''toString'', JStr ''x'')]),
           (''email'', JStr ''ana@example.org''),
           (''phone'', JStr ''+49 30 1234''),
           (''cycle'', JStr ''cycle-1''),
           (''package'', JStr ''p3'')]"

text \<open>A submitter who typed \<open>Unknown\<close> as the email address, and the mail that gives.\<close>

definition unknown_email_payload :: jsval where
  "unknown_email_payload =
     JObj [(''name'', JStr ''Bo''),
           (''email'', JStr ''Unknown''),
           (''phone'', JStr ''+49 30 1234''),
           (''cycleLabel'', JStr ''Next Cycle''),
           (''packageLabel'', JStr ''3 Classes'')]"

definition unknown_email_mail :: "string \<Rightarrow> string \<Rightarrow> mail_options" where
  "unknown_email_mail sender to_email =
     \<lparr> mail_from = sender_header sender,
       mail_to = to_email,
       replyTo = JUndefined,
       subject = ''SBA Booking Request '' @ em_dash @ '' Bo '' @ em_dash @ '' Next Cycle'',
       html = html_open @ logoBlock @ html_to_cycle @ ''Next Cycle'' @ html_to_package
              @ ''3 Classes'' @ html_to_name @ ''Bo'' @ html_to_email @ ''Unknown''
              @ html_to_phone @ ''+49 30 1234'' @ html_to_experience @ ''Unknown''
              @ html_to_notes @ html_to_received @ ''02/11/2026, 10:15:00'' @ html_close \<rparr>"

section \<open>Escaping\<close>

lemma replace_all_append:
  "replace_all c r (xs @ ys) = replace_all c r xs @ replace_all c r ys"
  by (induction xs) simp_all

lemma replace_chain:
  "replace_all (CHR 0x27) ''&#039;''
     (replace_all (CHR 0x22) ''&quot;''
       (replace_all (CHR ''>'') ''&gt;''
         (replace_all (CHR ''<'') ''&lt;''
           (replace_all (CHR ''&'') ''&amp;'' s)))) = esc_text s"
  by (induction s) (simp_all add: esc_text_def esc_char_def replace_all_append)

lemma escapeHtml_esc_text:
  "escapeHtml v = map_option esc_text (js_String (js_coalesce v (JStr [])))"
  by (simp add: escapeHtml_def replace_chain)

lemma markup_esc_char: "filter is_markup (esc_char c) = []"
  by (simp add: esc_char_def is_markup_def)

lemma markup_esc_text: "filter is_markup (esc_text s) = []"
  by (induction s) (simp_all add: esc_text_def markup_esc_char)

lemma take_prefix_append:
  assumes "take (length e) cs = e"
  shows "take (length e) (cs @ b) = e"
proof -
  from assms have "length (take (length e) cs) = length e" by simp
  then have "length e \<le> length cs" by simp
  then show ?thesis using assms by simp
qed

lemma amp_escaped_append: "amp_escaped a \<Longrightarrow> amp_escaped b \<Longrightarrow> amp_escaped (a @ b)"
proof (induction a)
  case Nil
  then show ?case by simp
next
  case (Cons c cs)
  from Cons.prems have tl: "amp_escaped cs"
    and hd: "c \<noteq> CHR ''&'' \<or> list_ex (\<lambda>e. take (length e) cs = e) entities"
    by simp_all
  from hd have "c \<noteq> CHR ''&'' \<or> list_ex (\<lambda>e. take (length e) (cs @ b) = e) entities"
    unfolding list_ex_iff using take_prefix_append by blast
  moreover have "amp_escaped (cs @ b)" using Cons.IH tl Cons.prems(2) by simp
  ultimately show ?case by simp
qed

lemma amp_escaped_esc_char: "amp_escaped (esc_char c)"
  by (simp add: esc_char_def entities_def)

lemma amp_escaped_esc_text: "amp_escaped (esc_text s)"
  by (induction s) (simp_all add: esc_text_def amp_escaped_append amp_escaped_esc_char)

lemma amp_escaped_no_amp: "CHR ''&'' \<notin> set s \<Longrightarrow> amp_escaped s"
  by (induction s) auto

text \<open>The template itself holds no ampersand.\<close>

lemma template_amp_escaped:
  "amp_escaped logoBlock"
  "amp_escaped html_open"
  "amp_escaped html_to_cycle"
  "amp_escaped html_to_package"
  "amp_escaped html_to_name"
  "amp_escaped html_to_email"
  "amp_escaped html_to_phone"
  "amp_escaped html_to_experience"
  "amp_escaped html_to_notes"
  "amp_escaped notes_open"
  "amp_escaped goals_open"
  "amp_escaped goals_close"
  "amp_escaped notes_mid"
  "amp_escaped message_open"
  "amp_escaped message_close"
  "amp_escaped notes_close"
  "amp_escaped html_to_received"
  "amp_escaped html_close"
  by (rule amp_escaped_no_amp, simp add: logoBlock_def html_open_def html_to_cycle_def html_to_package_def
    html_to_name_def html_to_email_def html_to_phone_def html_to_experience_def
    html_to_notes_def notes_open_def goals_open_def goals_close_def
    notes_mid_def message_open_def message_close_def notes_close_def
    html_to_received_def html_close_def)+

lemma escapeHtml_safe:
  assumes "escapeHtml v = Some t"
  shows "filter is_markup t = []" and "amp_escaped t"
  using assms by (auto simp: escapeHtml_esc_text markup_esc_text amp_escaped_esc_text)

lemma render_notes_safe:
  assumes "render_notes s = Some n"
  shows "filter is_markup n =
           filter is_markup
             (if js_truthy (goals s) \<or> js_truthy (message s)
              then notes_open @ (if js_truthy (goals s) then goals_open @ goals_close else [])
                   @ notes_mid @ (if js_truthy (message s) then message_open @ message_close else [])
                   @ notes_close
              else [])"
    and "amp_escaped n"
  using assms
  by (auto simp: render_notes_def js_or_def escapeHtml_safe template_amp_escaped
        amp_escaped_append split: if_splits bind_splits)

text \<open>The fields read from the example payload.\<close>

lemma example_fields:
  "read_fields example_payload =
     \<lparr> fullName = JStr ''Ana <script>'', userEmail = JStr ''ana@example.org'',
       phone = JStr ''+49 30 1234'', experience = JStr ''Unknown'', goals = JStr [],
       message = JStr [], cycle = JStr ''cycle-1'', cycleLabel = JStr ''cycle-1'',
       pkg = JStr ''p3'', packageLabel = JStr ''p3'' \<rparr>"
  by (simp add: read_fields_def example_payload_def js_or_def Let_def)

lemma example_html:
  "render_html (read_fields example_payload) ''02/11/2026, 10:15:00''
     = Some (html_open @ logoBlock @ html_to_cycle @ ''cycle-1'' @ html_to_package @ ''p3''
             @ html_to_name @ ''Ana &lt;script&gt;'' @ html_to_email @ ''ana@example.org''
             @ html_to_phone @ ''+49 30 1234'' @ html_to_experience @ ''Unknown''
             @ html_to_notes @ html_to_received @ ''02/11/2026, 10:15:00'' @ html_close)"
  by (simp add: example_fields render_html_def render_notes_def escapeHtml_def js_or_def
        js_coalesce_def js_nullish_def)

lemma example_build_mail:
  "build_mail (read_fields example_payload) ''02/11/2026, 10:15:00'' sender to_email
     = Some (example_mail sender to_email)"
  using example_html
  by (simp add: build_mail_def render_subject_def example_mail_def example_html_body_def
        example_fields)

text \<open>
  C1. Whatever the submission holds, the markup characters \<open><\<close>, \<open>>\<close> and the double
  quote of the rendered HTML body are those of the template (the body filtered to them is
  the template's own text filtered to them), and every ampersand of the body starts a
  character reference: each interpolated value went through \<open>escapeHtml\<close>, whose result
  holds no markup character and no bare ampersand. The HTML of the mail options is this
  rendered body. A name \<^verbatim>\<open><script>\<close> is rendered as \<^verbatim>\<open>&lt;script&gt;\<close>.
\<close>

theorem html_user_text_escaped:
  "(render_html s now = Some h \<longrightarrow>
      filter is_markup h
        = filter is_markup (html_skeleton (js_truthy (goals s)) (js_truthy (message s)))
      \<and> amp_escaped h)
   \<and> (build_mail s now sender to_email = Some m \<longrightarrow> render_html s now = Some (html m))
   \<and> (escapeHtml v = Some t \<longrightarrow> filter is_markup t = [] \<and> amp_escaped t)
   \<and> escapeHtml (JStr ''<script>'') = Some ''&lt;script&gt;''"
proof (intro conjI impI)
  assume r: "render_html s now = Some h"
  then obtain c p n e ph x nt tm where
    parts: "escapeHtml (cycleLabel s) = Some c" "escapeHtml (packageLabel s) = Some p"
      "escapeHtml (fullName s) = Some n" "escapeHtml (userEmail s) = Some e"
      "escapeHtml (phone s) = Some ph" "escapeHtml (experience s) = Some x"
      "render_notes s = Some nt" "escapeHtml (JStr now) = Some tm"
    and h: "h = html_open @ logoBlock @ html_to_cycle @ c @ html_to_package @ p
             @ html_to_name @ n @ html_to_email @ e @ html_to_phone @ ph
             @ html_to_experience @ x @ html_to_notes @ nt
             @ html_to_received @ tm @ html_close"
    by (auto simp: render_html_def split: bind_splits)
  show "filter is_markup h
        = filter is_markup (html_skeleton (js_truthy (goals s)) (js_truthy (message s)))"
    unfolding h html_skeleton_def filter_append
    by (simp only: escapeHtml_safe(1) [OF parts(1)] escapeHtml_safe(1) [OF parts(2)]
          escapeHtml_safe(1) [OF parts(3)] escapeHtml_safe(1) [OF parts(4)]
          escapeHtml_safe(1) [OF parts(5)] escapeHtml_safe(1) [OF parts(6)]
          escapeHtml_safe(1) [OF parts(8)] render_notes_safe(1) [OF parts(7)]
          append_Nil append_Nil2)
  show "amp_escaped h"
    unfolding h
    by (intro amp_escaped_append template_amp_escaped escapeHtml_safe(2) [OF parts(1)]
          escapeHtml_safe(2) [OF parts(2)] escapeHtml_safe(2) [OF parts(3)]
          escapeHtml_safe(2) [OF parts(4)] escapeHtml_safe(2) [OF parts(5)]
          escapeHtml_safe(2) [OF parts(6)] escapeHtml_safe(2) [OF parts(8)]
          render_notes_safe(2) [OF parts(7)])
next
  assume "build_mail s now sender to_email = Some m"
  then show "render_html s now = Some (html m)"
    by (auto simp: build_mail_def split: bind_splits)
next
  assume "escapeHtml v = Some t"
  then show "filter is_markup t = []" by (rule escapeHtml_safe)
next
  assume "escapeHtml v = Some t"
  then show "amp_escaped t" by (rule escapeHtml_safe)
next
  show "escapeHtml (JStr ''<script>'') = Some ''&lt;script&gt;''"
    by (simp add: escapeHtml_def js_coalesce_def js_nullish_def)
qed

text \<open>The theorem at the example payload, whose name holds \<^verbatim>\<open><script>\<close>.\<close>

theorem html_user_text_escaped_witness:
  "render_html (read_fields example_payload) ''02/11/2026, 10:15:00''
     = Some (html_open @ logoBlock @ html_to_cycle @ ''cycle-1'' @ html_to_package @ ''p3''
             @ html_to_name @ ''Ana &lt;script&gt;'' @ html_to_email @ ''ana@example.org''
             @ html_to_phone @ ''+49 30 1234'' @ html_to_experience @ ''Unknown''
             @ html_to_notes @ html_to_received @ ''02/11/2026, 10:15:00'' @ html_close)
   \<and> filter is_markup
         (html_open @ logoBlock @ html_to_cycle @ ''cycle-1'' @ html_to_package @ ''p3''
          @ html_to_name @ ''Ana &lt;script&gt;'' @ html_to_email @ ''ana@example.org''
          @ html_to_phone @ ''+49 30 1234'' @ html_to_experience @ ''Unknown''
          @ html_to_notes @ html_to_received @ ''02/11/2026, 10:15:00'' @ html_close)
       = filter is_markup (html_skeleton False False)
   \<and> amp_escaped
         (html_open @ logoBlock @ html_to_cycle @ ''cycle-1'' @ html_to_package @ ''p3''
          @ html_to_name @ ''Ana &lt;script&gt;'' @ html_to_email @ ''ana@example.org''
          @ html_to_phone @ ''+49 30 1234'' @ html_to_experience @ ''Unknown''
          @ html_to_notes @ html_to_received @ ''02/11/2026, 10:15:00'' @ html_close)
   \<and> build_mail (read_fields example_payload) ''02/11/2026, 10:15:00''
         ''sba@example.org'' ''silvaboxingacademy@gmail.com''
       = Some (example_mail ''sba@example.org'' ''silvaboxingacademy@gmail.com'')
   \<and> render_html (read_fields example_payload) ''02/11/2026, 10:15:00''
       = Some (html (example_mail ''sba@example.org'' ''silvaboxingacademy@gmail.com''))
   \<and> escapeHtml (JStr ''a & b'') = Some ''a &amp; b''
   \<and> filter is_markup ''a &amp; b'' = [] \<and> amp_escaped ''a &amp; b''"
proof -
  let ?s = "read_fields example_payload"
  let ?h = "html_open @ logoBlock @ html_to_cycle @ ''cycle-1'' @ html_to_package @ ''p3''
          @ html_to_name @ ''Ana &lt;script&gt;'' @ html_to_email @ ''ana@example.org''
          @ html_to_phone @ ''+49 30 1234'' @ html_to_experience @ ''Unknown''
          @ html_to_notes @ html_to_received @ ''02/11/2026, 10:15:00'' @ html_close"
  have r: "render_html ?s ''02/11/2026, 10:15:00'' = Some ?h"
    by (rule example_html)
  have g: "\<not> js_truthy (goals ?s)" "\<not> js_truthy (message ?s)"
    by (simp_all add: example_fields)
  have e: "escapeHtml (JStr ''a & b'') = Some ''a &amp; b''"
    by (simp add: escapeHtml_def js_coalesce_def js_nullish_def)
  have b: "build_mail ?s ''02/11/2026, 10:15:00'' ''sba@example.org''
             ''silvaboxingacademy@gmail.com''
           = Some (example_mail ''sba@example.org'' ''silvaboxingacademy@gmail.com'')"
    by (rule example_build_mail)
  note A = html_user_text_escaped [of ?s "''02/11/2026, 10:15:00''" ?h "''sba@example.org''"
      "''silvaboxingacademy@gmail.com''"
      "example_mail ''sba@example.org'' ''silvaboxingacademy@gmail.com''"
      "JStr ''a & b''" "''a &amp; b''"]
  from A [THEN conjunct1] r g
  have "filter is_markup ?h = filter is_markup (html_skeleton False False) \<and> amp_escaped ?h"
    by simp
  moreover from A [THEN conjunct2, THEN conjunct1] b
  have "render_html ?s ''02/11/2026, 10:15:00''
        = Some (html (example_mail ''sba@example.org'' ''silvaboxingacademy@gmail.com''))"
    by blast
  moreover from A [THEN conjunct2, THEN conjunct2, THEN conjunct1] e
  have "filter is_markup ''a &amp; b'' = [] \<and> amp_escaped ''a &amp; b''"
    by blast
  ultimately show ?thesis using r b e by (intro conjI) (elim conjE, assumption)+
qed

section \<open>The handlers, case by case\<close>

lemma truthy_not_nullish: "js_truthy v \<Longrightarrow> \<not> js_nullish v"
  by (auto simp: js_nullish_def)

lemma select_payload_not_nullish: "\<not> js_nullish (select_payload b)"
proof (cases "js_truthy (js_opt_get b ''payload'') \<and> js_typeof (js_get b ''payload'') = ''object''")
  case True
  then have "\<not> js_nullish b" by (auto simp: js_opt_get_def split: if_splits)
  with True have "js_truthy (js_get b ''payload'')" by (simp add: js_opt_get_def)
  with True show ?thesis by (simp add: select_payload_def truthy_not_nullish)
next
  case False
  then have "select_payload b = js_or b (JObj [])" by (auto simp: select_payload_def)
  then show ?thesis by (auto simp: js_or_def js_nullish_def truthy_not_nullish)
qed

lemma payload_of_not_nullish: "\<not> js_nullish (payload_of pf body)"
  by (simp add: payload_of_def select_payload_not_nullish)

lemma mint_access_token_eq:
  "mint_access_token pf (process_env pf ''GOOGLE_CLIENT_ID'')
       (process_env pf ''GOOGLE_CLIENT_SECRET'') (process_env pf ''GOOGLE_REFRESH_TOKEN'')
   = (if token_exchange_fails pf
      then ([exchange_effect pf, LogError mint_failed (err_text (mint_error pf))], None)
      else ([exchange_effect pf], Some (minted_token pf)))"
  by (auto simp: mint_access_token_def token_exchange_fails_def token_exchange_def
        exchange_effect_def mint_failed_def mint_error_def minted_token_def Let_def
        split: sum.splits option.splits)

lemma send_and_reply_eq:
  "send_and_reply pf tr sender to_email sub sent_text =
     (case build_mail sub (date_now pf) sender to_email of
        None \<Rightarrow> ([], Inl conversion_error)
      | Some mail \<Rightarrow>
          (case sendMail pf tr mail of
             Some err \<Rightarrow> ([SendMail tr mail], Inl err)
           | None \<Rightarrow> ([SendMail tr mail, LogInfo sent_text], Inr (res_json True None None))))"
  by (simp add: send_and_reply_def conversion_error_def split: option.splits)

lemma oauth2_try_eq:
  "oauth2_try pf body =
     (if missing_fields (payload_of pf body) \<noteq> []
      then ([], Inr (validation_response (missing_fields (payload_of pf body))))
      else if \<not> oauth2_config_ok pf
      then ([], Inr (res_json False (Some oauth2_config_error) (Some 500)))
      else if token_exchange_fails pf
      then ([exchange_effect pf, LogError mint_failed (err_text (mint_error pf))],
            Inr (res_json False (Some ''Failed to mint Gmail access token.'') (Some 500)))
      else
        (case oauth2_mail pf body of
           None \<Rightarrow>
             ([exchange_effect pf, CreateTransport (oauth2_transport pf (minted_token pf))],
              Inl conversion_error)
         | Some mail \<Rightarrow>
             (case sendMail pf (oauth2_transport pf (minted_token pf)) mail of
                Some err \<Rightarrow>
                  ([exchange_effect pf, CreateTransport (oauth2_transport pf (minted_token pf)),
                    SendMail (oauth2_transport pf (minted_token pf)) mail],
                   Inl err)
              | None \<Rightarrow>
                  ([exchange_effect pf, CreateTransport (oauth2_transport pf (minted_token pf)),
                    SendMail (oauth2_transport pf (minted_token pf)) mail, LogInfo sent_oauth2],
                   Inr (res_json True None None)))))"
  unfolding oauth2_try_def Let_def
  by (simp add: payload_of_def [symmetric] payload_of_not_nullish mint_access_token_eq
        send_and_reply_eq oauth2_config_ok_def oauth2_config_error_def oauth2_mail_def
        oauth2_transport_def gmail_sender_def admin_email_def sent_oauth2_def
        split: option.splits)

lemma smtp_try_eq:
  "smtp_try pf body =
     (if missing_fields (payload_of pf body) \<noteq> []
      then ([], Inr (validation_response (missing_fields (payload_of pf body))))
      else
        (case smtp_mail pf body of
           None \<Rightarrow> ([CreateTransport (smtp_transport pf)], Inl conversion_error)
         | Some mail \<Rightarrow>
             (case sendMail pf (smtp_transport pf) mail of
                Some err \<Rightarrow>
                  ([CreateTransport (smtp_transport pf), SendMail (smtp_transport pf) mail],
                   Inl err)
              | None \<Rightarrow>
                  ([CreateTransport (smtp_transport pf), SendMail (smtp_transport pf) mail,
                    LogInfo sent_smtp],
                   Inr (res_json True None None)))))"
  unfolding smtp_try_def Let_def
  by (simp add: payload_of_def [symmetric] payload_of_not_nullish
        send_and_reply_eq smtp_mail_def smtp_transport_def admin_email_def sent_smtp_def
        split: option.splits)

lemma main_oauth2_eq:
  "main_oauth2 pf body =
     (if missing_fields (payload_of pf body) \<noteq> []
      then ([], validation_response (missing_fields (payload_of pf body)))
      else if \<not> oauth2_config_ok pf
      then ([], res_json False (Some oauth2_config_error) (Some 500))
      else if token_exchange_fails pf
      then ([exchange_effect pf, LogError mint_failed (err_text (mint_error pf))],
            res_json False (Some ''Failed to mint Gmail access token.'') (Some 500))
      else
        (case oauth2_mail pf body of
           None \<Rightarrow>
             ([exchange_effect pf, CreateTransport (oauth2_transport pf (minted_token pf)),
               LogError send_failed (err_text conversion_error)],
              res_json False (Some (err_text conversion_error)) (Some 500))
         | Some mail \<Rightarrow>
             (case sendMail pf (oauth2_transport pf (minted_token pf)) mail of
                Some err \<Rightarrow>
                  ([exchange_effect pf, CreateTransport (oauth2_transport pf (minted_token pf)),
                    SendMail (oauth2_transport pf (minted_token pf)) mail,
                    LogError send_failed (err_text err)],
                   res_json False (Some (err_text err)) (Some 500))
              | None \<Rightarrow>
                  ([exchange_effect pf, CreateTransport (oauth2_transport pf (minted_token pf)),
                    SendMail (oauth2_transport pf (minted_token pf)) mail, LogInfo sent_oauth2],
                   res_json True None None))))"
  by (simp add: main_oauth2_def oauth2_try_eq catch_top_def send_failed_def
        split: option.splits)

lemma main_smtp_eq:
  "main_smtp pf body =
     (if missing_fields (payload_of pf body) \<noteq> []
      then ([], validation_response (missing_fields (payload_of pf body)))
      else
        (case smtp_mail pf body of
           None \<Rightarrow>
             ([CreateTransport (smtp_transport pf),
               LogError send_failed (err_text conversion_error)],
              res_json False (Some (err_text conversion_error)) (Some 500))
         | Some mail \<Rightarrow>
             (case sendMail pf (smtp_transport pf) mail of
                Some err \<Rightarrow>
                  ([CreateTransport (smtp_transport pf), SendMail (smtp_transport pf) mail,
                    LogError send_failed (err_text err)],
                   res_json False (Some (err_text err)) (Some 500))
              | None \<Rightarrow>
                  ([CreateTransport (smtp_transport pf), SendMail (smtp_transport pf) mail,
                    LogInfo sent_smtp],
                   res_json True None None))))"
  by (simp add: main_smtp_def smtp_try_eq catch_top_def send_failed_def
        split: option.splits)

text \<open>The OAuth2 module does not parse; the SMTP module exports its handler.\<close>

lemma index_js_syntax_error: "index_js = SyntaxError"
  by (simp add: index_js_def load_module_def)

lemma smtp_js_exports: "smtp_js = Exports main_smtp"
  by (simp add: smtp_js_def load_module_def js_identifier_start_def js_identifier_part_def)

lemma invoke_index_js: "invoke index_js pf body = None"
  by (simp add: invoke_def index_js_syntax_error)

lemma invoke_smtp_js: "invoke smtp_js pf body = Some (main_smtp pf body)"
  by (simp add: invoke_def smtp_js_exports)

text \<open>The handlers see the request only through its submission source.\<close>

lemma main_payload_cong:
  assumes "payload_of pf b = payload_of pf b'"
  shows "main_oauth2 pf b = main_oauth2 pf b'" and "main_smtp pf b = main_smtp pf b'"
  using assms by (simp_all add: main_oauth2_eq main_smtp_eq oauth2_mail_def smtp_mail_def)

section \<open>Validation\<close>

lemma missing_fields_filter:
  "missing_fields p = filter (field_missing p) required_fields"
  by (simp add: missing_fields_def field_missing_def required_fields_def suppliers_def Let_def)

lemma payload_of_value:
  assumes "js_typeof b \<noteq> ''string''"
  shows "payload_of pf b = select_payload b"
  using assms by (cases b) (simp_all add: payload_of_def parse_body_def)

text \<open>
  C2. The validator reports exactly the required fields that are missing, each under
  its canonical name, in the order fullName, email, phone, cycle, package (so as many
  names as fields are missing); when at least one is missing, both variants answer 400
  with \<open>Missing required fields:\<close> and the names joined by a comma and a space, and
  call nothing outside.
\<close>

theorem missing_fields_reported:
  "missing_fields p = filter (field_missing p) required_fields
   \<and> length (missing_fields p) = card {n \<in> set required_fields. field_missing p n}
   \<and> (payload_of pf body = p \<and> filter (field_missing p) required_fields \<noteq> [] \<longrightarrow>
        main_oauth2 pf body
          = ([], \<lparr> status = 400, ok = False,
                   error = Some (''Missing required fields: ''
                                 @ js_join '', '' (filter (field_missing p) required_fields)) \<rparr>)
        \<and> main_smtp pf body
          = ([], \<lparr> status = 400, ok = False,
                   error = Some (''Missing required fields: ''
                                 @ js_join '', '' (filter (field_missing p) required_fields)) \<rparr>))"
proof (intro conjI impI)
  show "missing_fields p = filter (field_missing p) required_fields"
    by (rule missing_fields_filter)
  have "distinct required_fields" by (simp add: required_fields_def)
  then have "length (filter (field_missing p) required_fields)
             = card {n \<in> set required_fields. field_missing p n}"
    by (simp add: distinct_length_filter Collect_conj_eq Int_commute)
  then show "length (missing_fields p) = card {n \<in> set required_fields. field_missing p n}"
    by (simp add: missing_fields_filter)
next
  assume a: "payload_of pf body = p \<and> filter (field_missing p) required_fields \<noteq> []"
  then show "main_oauth2 pf body
          = ([], \<lparr> status = 400, ok = False,
                   error = Some (''Missing required fields: ''
                                 @ js_join '', '' (filter (field_missing p) required_fields)) \<rparr>)"
    by (simp add: main_oauth2_eq missing_fields_filter [symmetric] validation_response_def
          res_json_def)
  from a show "main_smtp pf body
          = ([], \<lparr> status = 400, ok = False,
                   error = Some (''Missing required fields: ''
                                 @ js_join '', '' (filter (field_missing p) required_fields)) \<rparr>)"
    by (simp add: main_smtp_eq missing_fields_filter [symmetric] validation_response_def
          res_json_def)
qed

theorem missing_fields_reported_witness:
  "payload_of example_platform
       (JObj [(''email'', JStr ''ana@example.org''), (''phone'', JStr ''+49 30 1234'')])
     = JObj [(''email'', JStr ''ana@example.org''), (''phone'', JStr ''+49 30 1234'')]
   \<and> filter (field_missing
         (JObj [(''email'', JStr ''ana@example.org''), (''phone'', JStr ''+49 30 1234'')]))
        required_fields = [''fullName'', ''cycle'', ''package'']
   \<and> main_oauth2 example_platform
        (JObj [(''email'', JStr ''ana@example.org''), (''phone'', JStr ''+49 30 1234'')])
      = ([], \<lparr> status = 400, ok = False,
               error = Some ''Missing required fields: fullName, cycle, package'' \<rparr>)
   \<and> main_smtp example_platform
        (JObj [(''email'', JStr ''ana@example.org''), (''phone'', JStr ''+49 30 1234'')])
      = ([], \<lparr> status = 400, ok = False,
               error = Some ''Missing required fields: fullName, cycle, package'' \<rparr>)"
proof -
  let ?p = "JObj [(''email'', JStr ''ana@example.org''), (''phone'', JStr ''+49 30 1234'')]"
  have p: "payload_of example_platform ?p = ?p"
    by (simp add: payload_of_def parse_body_def select_payload_def js_opt_get_def
          js_nullish_def js_or_def)
  have f: "filter (field_missing ?p) required_fields = [''fullName'', ''cycle'', ''package'']"
    by (simp add: field_missing_def required_fields_def suppliers_def)
  from missing_fields_reported [of ?p example_platform ?p] p f
  show ?thesis by simp
qed

section \<open>Normalisation\<close>

lemma select_payload_eq:
  "select_payload d =
     (if has_object_payload d then js_get d ''payload''
      else if js_truthy d then d else JObj [])"
proof -
  have "(js_truthy (js_opt_get d ''payload'') \<and> js_typeof (js_get d ''payload'') = ''object'')
        = has_object_payload d"
    by (cases "js_get d ''payload''")
       (auto simp: has_object_payload_def js_opt_get_def)
  then show ?thesis by (simp add: select_payload_def js_or_def)
qed

text \<open>
  C3, as stated, fails where the decoded body is falsy: for the body \<^verbatim>\<open>null\<close>, sent as
  the text \<^verbatim>\<open>null\<close> or already parsed, the submission source is the empty record and
  not the decoded value, and the answer is the 400 of an empty submission.
\<close>

theorem null_body_counterexample:
  "parse_body (json_parse example_platform) (JStr ''null'') = JNull
   \<and> \<not> has_object_payload JNull
   \<and> select_payload JNull = JObj []
   \<and> select_payload JNull \<noteq> JNull
   \<and> snd (main_smtp example_platform (JStr ''null''))
       = \<lparr> status = 400, ok = False,
           error = Some ''Missing required fields: fullName, email, phone, cycle, package'' \<rparr>"
  by (simp add: parse_body_def example_platform_def example_json_def select_payload_eq
        has_object_payload_def js_nullish_def main_smtp_eq payload_of_def
        missing_fields_def validation_response_def res_json_def)

text \<open>
  C3, amended. A string body is decoded, and replaced by the empty record where the
  decoding fails, in which case the request is answered as the empty record is; any
  other body is taken as it is. The submission source is the decoded value's
  \<^verbatim>\<open>payload\<close> when that is an object, otherwise the decoded value itself when it is
  truthy, otherwise the empty record. A string body that decodes to a value other than
  a string gets the answer, and causes the calls, of that value as a body.
\<close>

theorem body_normalised:
  "parse_body jp (JStr s) = (case jp s of None \<Rightarrow> JObj [] | Some v \<Rightarrow> v)
   \<and> (js_typeof b \<noteq> ''string'' \<longrightarrow> parse_body jp b = b)
   \<and> select_payload d =
       (if has_object_payload d then js_get d ''payload''
        else if js_truthy d then d else JObj [])
   \<and> (json_parse pf s = None \<longrightarrow>
        main_oauth2 pf (JStr s) = main_oauth2 pf (JObj [])
        \<and> main_smtp pf (JStr s) = main_smtp pf (JObj []))
   \<and> (json_parse pf s = Some v \<and> js_typeof v \<noteq> ''string'' \<longrightarrow>
        main_oauth2 pf (JStr s) = main_oauth2 pf v
        \<and> main_smtp pf (JStr s) = main_smtp pf v)"
proof (intro conjI impI)
  show "parse_body jp (JStr s) = (case jp s of None \<Rightarrow> JObj [] | Some v \<Rightarrow> v)"
    by (simp add: parse_body_def)
  show "select_payload d =
       (if has_object_payload d then js_get d ''payload''
        else if js_truthy d then d else JObj [])"
    by (rule select_payload_eq)
next
  assume "js_typeof b \<noteq> ''string''"
  then show "parse_body jp b = b" by (cases b) (simp_all add: parse_body_def)
next
  assume n: "json_parse pf s = None"
  then have "payload_of pf (JStr s) = payload_of pf (JObj [])"
    by (simp add: payload_of_def parse_body_def)
  then show "main_oauth2 pf (JStr s) = main_oauth2 pf (JObj [])"
    and "main_smtp pf (JStr s) = main_smtp pf (JObj [])"
    by (rule main_payload_cong)+
next
  assume a: "json_parse pf s = Some v \<and> js_typeof v \<noteq> ''string''"
  then have "payload_of pf (JStr s) = select_payload v"
    by (simp add: payload_of_def parse_body_def)
  moreover from a have "payload_of pf v = select_payload v"
    by (simp add: payload_of_value)
  ultimately have "payload_of pf (JStr s) = payload_of pf v" by simp
  then show "main_oauth2 pf (JStr s) = main_oauth2 pf v"
    and "main_smtp pf (JStr s) = main_smtp pf v"
    by (rule main_payload_cong)+
qed

theorem body_normalised_witness:
  "js_typeof (JObj [(''payload'', example_payload)]) \<noteq> ''string''
   \<and> parse_body (json_parse example_platform) (JObj [(''payload'', example_payload)])
       = JObj [(''payload'', example_payload)]
   \<and> json_parse example_platform ''not json'' = None
   \<and> main_oauth2 example_platform (JStr ''not json'') = main_oauth2 example_platform (JObj [])
   \<and> main_smtp example_platform (JStr ''not json'') = main_smtp example_platform (JObj [])
   \<and> json_parse example_platform example_json = Some (JObj [(''payload'', example_payload)])
   \<and> main_oauth2 example_platform (JStr example_json)
       = main_oauth2 example_platform (JObj [(''payload'', example_payload)])
   \<and> main_smtp example_platform (JStr example_json)
       = main_smtp example_platform (JObj [(''payload'', example_payload)])"
proof -
  have t: "js_typeof (JObj [(''payload'', example_payload)]) \<noteq> ''string''" by simp
  have n: "json_parse example_platform ''not json'' = None"
    by (simp add: example_platform_def example_json_def)
  have j: "json_parse example_platform example_json = Some (JObj [(''payload'', example_payload)])"
    by (simp add: example_platform_def)
  from body_normalised [of "json_parse example_platform" "''not json''"
      "JObj [(''payload'', example_payload)]" JNull example_platform "JObj [(''payload'', example_payload)]"]
    body_normalised [of "json_parse example_platform" example_json
      "JObj [(''payload'', example_payload)]" JNull example_platform "JObj [(''payload'', example_payload)]"]
    t n j
  show ?thesis by simp
qed

section \<open>Configuration, token exchange and send\<close>

text \<open>The example request passes validation; its mail options.\<close>

lemma example_payload_of: "payload_of pf example_payload = example_payload"
  by (simp add: payload_of_def parse_body_def select_payload_def js_opt_get_def
        js_nullish_def js_or_def example_payload_def)

lemma example_missing: "missing_fields example_payload = []"
  by (simp add: missing_fields_def example_payload_def)

lemma example_platform_simps:
  "date_now example_platform = ''02/11/2026, 10:15:00''"
  "process_env example_platform = example_env"
  "sendMail example_platform = (\<lambda>tr m. None)"
  "token_exchange example_platform = Inr (Some (TokenResponse (Some ''ya29.token'')))"
  by (simp_all add: example_platform_def token_exchange_def)

lemma example_config_ok: "oauth2_config_ok example_platform"
  by (simp add: oauth2_config_ok_def example_platform_simps example_env_def env_truthy_def)

text \<open>
  The handler text of the OAuth2 variant, before any outside call: for a request that
  passes validation while one of the three secrets is absent from the environment (or
  empty) it answers 500 with the fixed message and has called nothing outside.
\<close>

lemma oauth2_handler_checks_secrets:
  assumes "missing_fields (payload_of pf body) = []"
    and "k \<in> {''GOOGLE_CLIENT_ID'', ''GOOGLE_CLIENT_SECRET'', ''GOOGLE_REFRESH_TOKEN''}"
    and "process_env pf k = None \<or> process_env pf k = Some []"
  shows "main_oauth2 pf body
         = ([], \<lparr> status = 500, ok = False, error = Some oauth2_config_error \<rparr>)"
proof -
  from assms(2,3) have "\<not> oauth2_config_ok pf"
    by (auto simp: oauth2_config_ok_def env_truthy_def)
  with assms(1) show ?thesis by (simp add: main_oauth2_eq res_json_def)
qed

text \<open>
  C7. The claim is what the handler text of \<^verbatim>\<open>index.js\<close> does: at the example request
  with no secret configured it answers 500 with the fixed message and calls nothing
  outside. The function never gives that answer: the module does not parse, because the
  declaration of \<open>escapeHtml\<close> at its end carries the type annotation
  \<^verbatim>\<open>input: any\<close>, so it exports no handler and the request gets no answer of the
  handler's. The SMTP source declares the same function without the annotation.
\<close>

theorem oauth2_secret_check_never_runs:
  "missing_fields (payload_of (no_config example_platform) example_payload) = []
   \<and> process_env (no_config example_platform) ''GOOGLE_CLIENT_ID'' = None
   \<and> process_env (no_config example_platform) ''GOOGLE_CLIENT_SECRET'' = None
   \<and> process_env (no_config example_platform) ''GOOGLE_REFRESH_TOKEN'' = None
   \<and> main_oauth2 (no_config example_platform) example_payload
       = ([], \<lparr> status = 500, ok = False, error = Some oauth2_config_error \<rparr>)
   \<and> index_js = SyntaxError
   \<and> invoke index_js (no_config example_platform) example_payload = None"
proof -
  have m: "missing_fields (payload_of (no_config example_platform) example_payload) = []"
    by (simp add: example_payload_of example_missing)
  have e: "process_env (no_config example_platform) ''GOOGLE_CLIENT_ID'' = None"
    "process_env (no_config example_platform) ''GOOGLE_CLIENT_SECRET'' = None"
    "process_env (no_config example_platform) ''GOOGLE_REFRESH_TOKEN'' = None"
    by (simp_all add: no_config_def)
  have h: "main_oauth2 (no_config example_platform) example_payload
       = ([], \<lparr> status = 500, ok = False, error = Some oauth2_config_error \<rparr>)"
    by (rule oauth2_handler_checks_secrets [of _ _ "''GOOGLE_REFRESH_TOKEN''"])
       (simp_all add: m e)
  from m e h index_js_syntax_error invoke_index_js show ?thesis by (intro conjI)
qed

text \<open>
  The handler text of the OAuth2 variant at the token exchange: for a request that
  passes validation with the three secrets set, whose exchange throws or gives no token
  or the empty token, it answers 500 with the fixed message
  \<open>Failed to mint Gmail access token.\<close>; it has made the exchange and logged under the
  label of the exchange, not of the send, and has neither created a transport nor sent.
\<close>

lemma oauth2_handler_mint_failure:
  assumes "missing_fields (payload_of pf body) = []"
    and "oauth2_config_ok pf"
    and "token_exchange_fails pf"
  shows "main_oauth2 pf body
         = ([exchange_effect pf, LogError mint_failed (err_text (mint_error pf))],
            \<lparr> status = 500, ok = False, error = Some ''Failed to mint Gmail access token.'' \<rparr>)"
    and "\<forall>tr m. SendMail tr m \<notin> set (fst (main_oauth2 pf body))"
    and "mint_failed \<noteq> send_failed"
proof -
  show a: "main_oauth2 pf body
         = ([exchange_effect pf, LogError mint_failed (err_text (mint_error pf))],
            \<lparr> status = 500, ok = False, error = Some ''Failed to mint Gmail access token.'' \<rparr>)"
    using assms by (simp add: main_oauth2_eq res_json_def)
  show "mint_failed \<noteq> send_failed"
    by (simp add: mint_failed_def send_failed_def)
  show "\<forall>tr m. SendMail tr m \<notin> set (fst (main_oauth2 pf body))"
    by (simp add: a exchange_effect_def)
qed

text \<open>
  C6. The claim is what the handler text of \<^verbatim>\<open>index.js\<close> does: at the example request
  with the secrets set and an exchange that gives the empty token, it answers 500 with
  \<open>Failed to mint Gmail access token.\<close> after the exchange and its log alone, without a
  send. The function never gives that answer: the module does not parse, because the
  declaration of \<open>escapeHtml\<close> at its end carries the type annotation
  \<^verbatim>\<open>input: any\<close>, so it exports no handler and the request gets no answer of the
  handler's. The SMTP source declares the same function without the annotation.
\<close>

theorem token_mint_failure_never_runs:
  "missing_fields
     (payload_of (example_platform \<lparr> getAccessToken := (\<lambda>i s r. Inr (Some (TokenResponse (Some [])))) \<rparr>)
        example_payload) = []
   \<and> oauth2_config_ok (example_platform \<lparr> getAccessToken := (\<lambda>i s r. Inr (Some (TokenResponse (Some [])))) \<rparr>)
   \<and> token_exchange_fails
        (example_platform \<lparr> getAccessToken := (\<lambda>i s r. Inr (Some (TokenResponse (Some [])))) \<rparr>)
   \<and> main_oauth2 (example_platform \<lparr> getAccessToken := (\<lambda>i s r. Inr (Some (TokenResponse (Some [])))) \<rparr>)
        example_payload
      = ([TokenExchange (Some ''client-id'') (Some ''client-secret'') (Some ''refresh-token''),
          LogError mint_failed ''Empty access token returned.''],
         \<lparr> status = 500, ok = False, error = Some ''Failed to mint Gmail access token.'' \<rparr>)
   \<and> index_js = SyntaxError
   \<and> invoke index_js
        (example_platform \<lparr> getAccessToken := (\<lambda>i s r. Inr (Some (TokenResponse (Some [])))) \<rparr>)
        example_payload = None"
proof -
  let ?e = "example_platform \<lparr> getAccessToken := (\<lambda>i s r. Inr (Some (TokenResponse (Some [])))) \<rparr>"
  have m: "missing_fields (payload_of ?e example_payload) = []"
    by (simp add: example_payload_of example_missing)
  have c: "oauth2_config_ok ?e"
    using example_config_ok by (simp add: oauth2_config_ok_def)
  have f: "token_exchange_fails ?e"
    by (simp add: token_exchange_fails_def token_exchange_def)
  have x: "exchange_effect ?e
            = TokenExchange (Some ''client-id'') (Some ''client-secret'') (Some ''refresh-token'')"
    by (simp add: exchange_effect_def example_platform_simps example_env_def)
  have t: "err_text (mint_error ?e) = ''Empty access token returned.''"
    by (simp add: mint_error_def token_exchange_def err_text_def)
  have h: "main_oauth2 ?e example_payload
      = ([TokenExchange (Some ''client-id'') (Some ''client-secret'') (Some ''refresh-token''),
          LogError mint_failed ''Empty access token returned.''],
         \<lparr> status = 500, ok = False, error = Some ''Failed to mint Gmail access token.'' \<rparr>)"
    using oauth2_handler_mint_failure(1) [OF m c f] by (simp add: x t)
  from m c f h index_js_syntax_error invoke_index_js show ?thesis by (intro conjI)
qed

lemma example_smtp_mail:
  assumes "date_now pf = ''02/11/2026, 10:15:00''"
  shows "smtp_mail pf example_payload
         = Some (example_mail (env_template (process_env pf ''SMTP_USER'')) (admin_email pf))"
  using assms by (simp add: smtp_mail_def example_payload_of example_build_mail)

lemma example_oauth2_mail:
  assumes "date_now pf = ''02/11/2026, 10:15:00''"
  shows "oauth2_mail pf example_payload
         = Some (example_mail (gmail_sender pf) (admin_email pf))"
  using assms by (simp add: oauth2_mail_def example_payload_of example_build_mail)

lemma example_smtp_answer:
  assumes "date_now pf = ''02/11/2026, 10:15:00''"
  shows "main_smtp pf example_payload =
     (case sendMail pf (smtp_transport pf)
             (example_mail (env_template (process_env pf ''SMTP_USER'')) (admin_email pf)) of
        Some err \<Rightarrow>
          ([CreateTransport (smtp_transport pf),
            SendMail (smtp_transport pf)
              (example_mail (env_template (process_env pf ''SMTP_USER'')) (admin_email pf)),
            LogError send_failed (err_text err)],
           res_json False (Some (err_text err)) (Some 500))
      | None \<Rightarrow>
          ([CreateTransport (smtp_transport pf),
            SendMail (smtp_transport pf)
              (example_mail (env_template (process_env pf ''SMTP_USER'')) (admin_email pf)),
            LogInfo sent_smtp],
           res_json True None None))"
  by (simp add: main_smtp_eq example_payload_of example_missing example_smtp_mail [OF assms])

lemma example_oauth2_answer:
  assumes "date_now pf = ''02/11/2026, 10:15:00''"
    and "oauth2_config_ok pf" and "\<not> token_exchange_fails pf"
  shows "main_oauth2 pf example_payload =
     (case sendMail pf (oauth2_transport pf (minted_token pf))
             (example_mail (gmail_sender pf) (admin_email pf)) of
        Some err \<Rightarrow>
          ([exchange_effect pf, CreateTransport (oauth2_transport pf (minted_token pf)),
            SendMail (oauth2_transport pf (minted_token pf))
              (example_mail (gmail_sender pf) (admin_email pf)),
            LogError send_failed (err_text err)],
           res_json False (Some (err_text err)) (Some 500))
      | None \<Rightarrow>
          ([exchange_effect pf, CreateTransport (oauth2_transport pf (minted_token pf)),
            SendMail (oauth2_transport pf (minted_token pf))
              (example_mail (gmail_sender pf) (admin_email pf)),
            LogInfo sent_oauth2],
           res_json True None None))"
  using assms(2,3)
  by (simp add: main_oauth2_eq example_payload_of example_missing
        example_oauth2_mail [OF assms(1)])

lemma variant_platform_simps:
  "date_now (failing_send err) = ''02/11/2026, 10:15:00''"
  "sendMail (failing_send err) = (\<lambda>tr m. Some err)"
  "process_env (failing_send err) = example_env"
  "token_exchange (failing_send err) = Inr (Some (TokenResponse (Some ''ya29.token'')))"
  "date_now (no_config pf) = date_now pf"
  "sendMail (no_config pf) = sendMail pf"
  "process_env (no_config pf) = (\<lambda>k. None)"
  by (simp_all add: failing_send_def no_config_def example_platform_simps token_exchange_def
        example_platform_def)

lemma unprintable_facts:
  "payload_of pf unprintable_payload = unprintable_payload"
  "missing_fields unprintable_payload = []"
  "build_mail (read_fields unprintable_payload) now sender to_email = None"
  by (simp_all add: payload_of_def parse_body_def select_payload_def js_opt_get_def
        js_nullish_def js_or_def unprintable_payload_def missing_fields_def build_mail_def
        render_html_def read_fields_def escapeHtml_def js_coalesce_def Let_def)

text \<open>
  C4, as stated, fails in the SMTP variant, which tests no configuration: with an empty
  environment a valid request goes on to the send, and the answer is the send's. Where
  the connection is refused the error of the answer is the text of that failure; where
  the send succeeds the answer is 200.
\<close>

theorem smtp_unconfigured_counterexample:
  "process_env (no_config (failing_send refused)) ''SMTP_HOST'' = None
   \<and> process_env (no_config (failing_send refused)) ''SMTP_PORT'' = None
   \<and> process_env (no_config (failing_send refused)) ''SMTP_USER'' = None
   \<and> process_env (no_config (failing_send refused)) ''SMTP_PASS'' = None
   \<and> missing_fields (payload_of (no_config (failing_send refused)) example_payload) = []
   \<and> snd (main_smtp (no_config (failing_send refused)) example_payload)
       = \<lparr> status = 500, ok = False, error = Some ''connect ECONNREFUSED 127.0.0.1:587'' \<rparr>
   \<and> snd (main_smtp (no_config example_platform) example_payload)
       = \<lparr> status = 200, ok = True, error = None \<rparr>"
proof -
  have "snd (main_smtp (no_config (failing_send refused)) example_payload)
       = \<lparr> status = 500, ok = False, error = Some ''connect ECONNREFUSED 127.0.0.1:587'' \<rparr>"
    by (simp add: example_smtp_answer variant_platform_simps res_json_def err_text_def
          refused_def)
  moreover have "snd (main_smtp (no_config example_platform) example_payload)
       = \<lparr> status = 200, ok = True, error = None \<rparr>"
    by (simp add: example_smtp_answer variant_platform_simps example_platform_simps
          res_json_def)
  ultimately show ?thesis
    by (simp add: variant_platform_simps example_payload_of example_missing)
qed

text \<open>
  C4, amended. The SMTP variant tests no transport configuration. For every request
  that passes field validation, whatever the environment holds of host, port, username
  and password, also nothing, the handler creates the transport from it, the port
  defaulting to 587. Where the values of the submission convert to text it attempts
  the send once and answers as the send went: 200 with \<open>{ok: true}\<close> where the send
  succeeds, 500 with the text of the send's error where it throws. Where a value does
  not convert to text it answers 500 with the TypeError's message and attempts no send.
\<close>

theorem transport_configuration:
  "missing_fields (payload_of pf body) = [] \<longrightarrow>
     smtp_transport pf
       = Smtp (process_env pf ''SMTP_HOST'')
              (parseInt10 pf (case process_env pf ''SMTP_PORT'' of
                                None \<Rightarrow> ''587''
                              | Some s \<Rightarrow> if s = [] then ''587'' else s))
              (process_env pf ''SMTP_SECURE'' = Some ''true'')
              (process_env pf ''SMTP_USER'')
              (process_env pf ''SMTP_PASS'')
     \<and> main_smtp pf body =
         (case smtp_mail pf body of
            None \<Rightarrow>
              ([CreateTransport (smtp_transport pf),
                LogError send_failed (err_text conversion_error)],
               \<lparr> status = 500, ok = False, error = Some (err_text conversion_error) \<rparr>)
          | Some mail \<Rightarrow>
              (case sendMail pf (smtp_transport pf) mail of
                 None \<Rightarrow>
                   ([CreateTransport (smtp_transport pf), SendMail (smtp_transport pf) mail,
                     LogInfo sent_smtp],
                    \<lparr> status = 200, ok = True, error = None \<rparr>)
               | Some err \<Rightarrow>
                   ([CreateTransport (smtp_transport pf), SendMail (smtp_transport pf) mail,
                     LogError send_failed (err_text err)],
                    \<lparr> status = 500, ok = False, error = Some (err_text err) \<rparr>)))"
  by (simp add: main_smtp_eq res_json_def smtp_transport_def env_or_def
        split: option.splits)

theorem transport_configuration_witness:
  "missing_fields (payload_of (no_config (failing_send refused)) example_payload) = []
   \<and> process_env (no_config (failing_send refused)) ''SMTP_HOST'' = None
   \<and> smtp_mail (no_config (failing_send refused)) example_payload
       = Some (example_mail ''undefined'' ''silvaboxingacademy@gmail.com'')
   \<and> main_smtp (no_config (failing_send refused)) example_payload
       = ([CreateTransport (Smtp None (JNum ''587'') False None None),
           SendMail (Smtp None (JNum ''587'') False None None)
             (example_mail ''undefined'' ''silvaboxingacademy@gmail.com''),
           LogError send_failed ''connect ECONNREFUSED 127.0.0.1:587''],
          \<lparr> status = 500, ok = False, error = Some ''connect ECONNREFUSED 127.0.0.1:587'' \<rparr>)
   \<and> main_smtp (no_config example_platform) example_payload
       = ([CreateTransport (Smtp None (JNum ''587'') False None None),
           SendMail (Smtp None (JNum ''587'') False None None)
             (example_mail ''undefined'' ''silvaboxingacademy@gmail.com''),
           LogInfo sent_smtp],
          \<lparr> status = 200, ok = True, error = None \<rparr>)
   \<and> missing_fields (payload_of (no_config example_platform) unprintable_payload) = []
   \<and> smtp_mail (no_config example_platform) unprintable_payload = None
   \<and> main_smtp (no_config example_platform) unprintable_payload
       = ([CreateTransport (Smtp None (JNum ''587'') False None None),
           LogError send_failed ''Cannot convert object to primitive value''],
          \<lparr> status = 500, ok = False,
            error = Some ''Cannot convert object to primitive value'' \<rparr>)"
proof -
  let ?f = "no_config (failing_send refused)"
  let ?n = "no_config example_platform"
  let ?m = "example_mail ''undefined'' ''silvaboxingacademy@gmail.com''"
  let ?tr = "Smtp None (JNum ''587'') False None None"
  have m: "missing_fields (payload_of ?f example_payload) = []"
    "missing_fields (payload_of ?n example_payload) = []"
    "missing_fields (payload_of ?n unprintable_payload) = []"
    by (simp_all add: example_payload_of example_missing unprintable_facts)
  have e: "process_env ?f = (\<lambda>k. None)" "process_env ?n = (\<lambda>k. None)"
    "parseInt10 ?f = JNum" "parseInt10 ?n = JNum"
    by (simp_all add: no_config_def failing_send_def example_platform_def)
  have b: "smtp_mail ?f example_payload = Some ?m" "smtp_mail ?n example_payload = Some ?m"
    by (simp_all add: example_smtp_mail variant_platform_simps example_platform_simps
          env_template_def admin_email_def env_or_def)
  have u: "smtp_mail ?n unprintable_payload = None"
    by (simp add: smtp_mail_def unprintable_facts)
  have s: "sendMail ?f = (\<lambda>tr m. Some refused)" "sendMail ?n = (\<lambda>tr m. None)"
    by (simp_all add: variant_platform_simps example_platform_simps)
  have t: "err_text refused = ''connect ECONNREFUSED 127.0.0.1:587''"
    "err_text conversion_error = ''Cannot convert object to primitive value''"
    by (simp_all add: err_text_def refused_def conversion_error_def type_error_def)
  from transport_configuration [of ?f example_payload] m(1)
  have tf: "smtp_transport ?f = ?tr" by (simp add: e)
  from transport_configuration [of ?n example_payload] m(2)
  have tn: "smtp_transport ?n = ?tr" by (simp add: e)
  from transport_configuration [of ?f example_payload] m(1)
  have a1: "main_smtp ?f example_payload
       = ([CreateTransport ?tr, SendMail ?tr ?m,
           LogError send_failed ''connect ECONNREFUSED 127.0.0.1:587''],
          \<lparr> status = 500, ok = False, error = Some ''connect ECONNREFUSED 127.0.0.1:587'' \<rparr>)"
    by (simp add: b s t tf)
  from transport_configuration [of ?n example_payload] m(2)
  have a2: "main_smtp ?n example_payload
       = ([CreateTransport ?tr, SendMail ?tr ?m, LogInfo sent_smtp],
          \<lparr> status = 200, ok = True, error = None \<rparr>)"
    by (simp add: b s tn)
  from transport_configuration [of ?n unprintable_payload] m(3)
  have a3: "main_smtp ?n unprintable_payload
       = ([CreateTransport ?tr,
           LogError send_failed ''Cannot convert object to primitive value''],
          \<lparr> status = 500, ok = False,
            error = Some ''Cannot convert object to primitive value'' \<rparr>)"
    by (simp add: u t tn)
  have h: "process_env ?f ''SMTP_HOST'' = None" by (simp add: e)
  from m(1) h b(1) a1 a2 m(3) u a3 show ?thesis by (intro conjI)
qed

text \<open>
  C5, as stated, fails for a send error without a message: the answer then carries the
  error's string form (here its name, \<open>Error\<close>), not its empty message.
\<close>

theorem bare_error_counterexample:
  "missing_fields (payload_of (failing_send bare_error) example_payload) = []
   \<and> oauth2_config_ok (failing_send bare_error)
   \<and> \<not> token_exchange_fails (failing_send bare_error)
   \<and> sendMail (failing_send bare_error) (smtp_transport (failing_send bare_error))
        (example_mail ''sba@example.org'' ''silvaboxingacademy@gmail.com'') = Some bare_error
   \<and> err_message bare_error = []
   \<and> snd (main_smtp (failing_send bare_error) example_payload)
       = \<lparr> status = 500, ok = False, error = Some ''Error'' \<rparr>
   \<and> snd (main_oauth2 (failing_send bare_error) example_payload)
       = \<lparr> status = 500, ok = False, error = Some ''Error'' \<rparr>
   \<and> error (snd (main_smtp (failing_send bare_error) example_payload))
       \<noteq> Some (err_message bare_error)"
proof -
  let ?pf = "failing_send bare_error"
  have c: "oauth2_config_ok ?pf"
    using example_config_ok by (simp add: oauth2_config_ok_def variant_platform_simps
        example_platform_simps)
  have f: "\<not> token_exchange_fails ?pf"
    by (simp add: token_exchange_fails_def variant_platform_simps)
  have t: "err_text bare_error = ''Error''"
    by (simp add: err_text_def err_String_def bare_error_def)
  have "snd (main_smtp ?pf example_payload)
         = \<lparr> status = 500, ok = False, error = Some ''Error'' \<rparr>"
    by (simp add: example_smtp_answer variant_platform_simps res_json_def t)
  moreover have "snd (main_oauth2 ?pf example_payload)
         = \<lparr> status = 500, ok = False, error = Some ''Error'' \<rparr>"
    by (simp add: example_oauth2_answer c f variant_platform_simps res_json_def t)
  ultimately show ?thesis
    using c f
    by (simp add: example_payload_of example_missing variant_platform_simps)
       (simp add: bare_error_def)
qed

text \<open>
  C5, amended. For a request that passes validation and the configuration checks, whose
  token is minted (OAuth2 variant) and whose values convert to text: where the send
  succeeds the answer is exactly \<open>{ok: true}\<close> with status 200; where the send throws,
  the error is caught, the send is not tried again, and the answer is 500 with
  \<open>{ok: false, error: e}\<close>, \<open>e\<close> the error's message, or the error's string form when
  its message is empty. A TypeError of the rendering is caught in the same way.
\<close>

theorem send_outcome:
  "(missing_fields (payload_of pf body) = [] \<and> oauth2_config_ok pf
      \<and> \<not> token_exchange_fails pf \<and> oauth2_mail pf body = Some mail \<longrightarrow>
      (sendMail pf (oauth2_transport pf (minted_token pf)) mail = None \<longrightarrow>
         main_oauth2 pf body
           = ([exchange_effect pf, CreateTransport (oauth2_transport pf (minted_token pf)),
               SendMail (oauth2_transport pf (minted_token pf)) mail, LogInfo sent_oauth2],
              \<lparr> status = 200, ok = True, error = None \<rparr>))
      \<and> (sendMail pf (oauth2_transport pf (minted_token pf)) mail = Some err \<longrightarrow>
         main_oauth2 pf body
           = ([exchange_effect pf, CreateTransport (oauth2_transport pf (minted_token pf)),
               SendMail (oauth2_transport pf (minted_token pf)) mail,
               LogError send_failed (err_text err)],
              \<lparr> status = 500, ok = False, error = Some (err_text err) \<rparr>)))
   \<and> (missing_fields (payload_of pf body) = [] \<and> smtp_mail pf body = Some mail' \<longrightarrow>
      (sendMail pf (smtp_transport pf) mail' = None \<longrightarrow>
         main_smtp pf body
           = ([CreateTransport (smtp_transport pf), SendMail (smtp_transport pf) mail',
               LogInfo sent_smtp],
              \<lparr> status = 200, ok = True, error = None \<rparr>))
      \<and> (sendMail pf (smtp_transport pf) mail' = Some err \<longrightarrow>
         main_smtp pf body
           = ([CreateTransport (smtp_transport pf), SendMail (smtp_transport pf) mail',
               LogError send_failed (err_text err)],
              \<lparr> status = 500, ok = False, error = Some (err_text err) \<rparr>)))
   \<and> (missing_fields (payload_of pf body) = [] \<and> smtp_mail pf body = None \<longrightarrow>
        snd (main_smtp pf body)
          = \<lparr> status = 500, ok = False, error = Some (err_text conversion_error) \<rparr>)
   \<and> err_text err = (if err_message err \<noteq> [] then err_message err else err_String err)"
  by (simp add: main_oauth2_eq main_smtp_eq res_json_def err_text_def)

theorem send_outcome_witness:
  "missing_fields (payload_of example_platform example_payload) = []
   \<and> oauth2_config_ok example_platform \<and> \<not> token_exchange_fails example_platform
   \<and> oauth2_mail example_platform example_payload
       = Some (example_mail ''silvaboxingacademy@gmail.com'' ''silvaboxingacademy@gmail.com'')
   \<and> sendMail example_platform (oauth2_transport example_platform (minted_token example_platform))
        (example_mail ''silvaboxingacademy@gmail.com'' ''silvaboxingacademy@gmail.com'') = None
   \<and> main_oauth2 example_platform example_payload
       = ([exchange_effect example_platform,
           CreateTransport (oauth2_transport example_platform (minted_token example_platform)),
           SendMail (oauth2_transport example_platform (minted_token example_platform))
             (example_mail ''silvaboxingacademy@gmail.com'' ''silvaboxingacademy@gmail.com''),
           LogInfo sent_oauth2],
          \<lparr> status = 200, ok = True, error = None \<rparr>)
   \<and> sendMail (failing_send refused)
        (oauth2_transport (failing_send refused) (minted_token (failing_send refused)))
        (example_mail ''silvaboxingacademy@gmail.com'' ''silvaboxingacademy@gmail.com'')
       = Some refused
   \<and> main_oauth2 (failing_send refused) example_payload
       = ([exchange_effect (failing_send refused),
           CreateTransport
             (oauth2_transport (failing_send refused) (minted_token (failing_send refused))),
           SendMail
             (oauth2_transport (failing_send refused) (minted_token (failing_send refused)))
             (example_mail ''silvaboxingacademy@gmail.com'' ''silvaboxingacademy@gmail.com''),
           LogError send_failed ''connect ECONNREFUSED 127.0.0.1:587''],
          \<lparr> status = 500, ok = False, error = Some ''connect ECONNREFUSED 127.0.0.1:587'' \<rparr>)
   \<and> smtp_mail example_platform example_payload
       = Some (example_mail ''sba@example.org'' ''silvaboxingacademy@gmail.com'')
   \<and> main_smtp example_platform example_payload
       = ([CreateTransport (smtp_transport example_platform),
           SendMail (smtp_transport example_platform)
             (example_mail ''sba@example.org'' ''silvaboxingacademy@gmail.com''),
           LogInfo sent_smtp],
          \<lparr> status = 200, ok = True, error = None \<rparr>)
   \<and> sendMail (failing_send refused) (smtp_transport (failing_send refused))
        (example_mail ''sba@example.org'' ''silvaboxingacademy@gmail.com'') = Some refused
   \<and> main_smtp (failing_send refused) example_payload
       = ([CreateTransport (smtp_transport (failing_send refused)),
           SendMail (smtp_transport (failing_send refused))
             (example_mail ''sba@example.org'' ''silvaboxingacademy@gmail.com''),
           LogError send_failed ''connect ECONNREFUSED 127.0.0.1:587''],
          \<lparr> status = 500, ok = False, error = Some ''connect ECONNREFUSED 127.0.0.1:587'' \<rparr>)
   \<and> missing_fields (payload_of example_platform unprintable_payload) = []
   \<and> smtp_mail example_platform unprintable_payload = None
   \<and> snd (main_smtp example_platform unprintable_payload)
       = \<lparr> status = 500, ok = False,
           error = Some ''Cannot convert object to primitive value'' \<rparr>"
proof -
  let ?g = "example_mail ''silvaboxingacademy@gmail.com'' ''silvaboxingacademy@gmail.com''"
  let ?s = "example_mail ''sba@example.org'' ''silvaboxingacademy@gmail.com''"
  let ?f = "failing_send refused"
  have m: "missing_fields (payload_of example_platform example_payload) = []"
    "missing_fields (payload_of ?f example_payload) = []"
    "missing_fields (payload_of example_platform unprintable_payload) = []"
    by (simp_all add: example_payload_of example_missing unprintable_facts)
  have c: "oauth2_config_ok ?f"
    using example_config_ok by (simp add: oauth2_config_ok_def variant_platform_simps
        example_platform_simps)
  have f: "\<not> token_exchange_fails example_platform" "\<not> token_exchange_fails ?f"
    by (simp_all add: token_exchange_fails_def example_platform_simps variant_platform_simps)
  have g: "oauth2_mail example_platform example_payload = Some ?g"
    "oauth2_mail ?f example_payload = Some ?g"
    by (simp_all add: example_oauth2_mail example_platform_simps variant_platform_simps
          gmail_sender_def admin_email_def env_or_def example_env_def)
  have s: "smtp_mail example_platform example_payload = Some ?s"
    "smtp_mail ?f example_payload = Some ?s"
    by (simp_all add: example_smtp_mail example_platform_simps variant_platform_simps
          env_template_def admin_email_def env_or_def example_env_def)
  have u: "smtp_mail example_platform unprintable_payload = None"
    by (simp add: smtp_mail_def unprintable_facts)
  have o: "sendMail example_platform
             (oauth2_transport example_platform (minted_token example_platform)) ?g = None"
    "sendMail example_platform (smtp_transport example_platform) ?s = None"
    by (simp_all add: example_platform_simps)
  have x: "sendMail ?f (smtp_transport ?f) ?s = Some refused"
    "sendMail ?f (oauth2_transport ?f (minted_token ?f)) ?g = Some refused"
    by (simp_all add: variant_platform_simps)
  have t: "err_text refused = ''connect ECONNREFUSED 127.0.0.1:587''"
    "err_text conversion_error = ''Cannot convert object to primitive value''"
    by (simp_all add: err_text_def refused_def conversion_error_def type_error_def)
  from send_outcome [of example_platform example_payload ?g refused ?s]
    send_outcome [of ?f example_payload ?g refused ?s]
    send_outcome [of example_platform unprintable_payload ?g refused ?s]
    m example_config_ok c f g s u o x t
  show ?thesis by simp
qed

section \<open>Fallbacks, reply-to and truthiness\<close>

lemma missing_nil_truthy:
  assumes "missing_fields p = []"
  shows "js_truthy (js_get p ''fullName'') \<or> js_truthy (js_get p ''name'')"
    and "js_truthy (js_get p ''email'')"
    and "js_truthy (js_get p ''phone'') \<or> js_truthy (js_get p ''whatsapp'')"
    and "js_truthy (js_get p ''cycle'') \<or> js_truthy (js_get p ''cycleLabel'')"
    and "js_truthy (js_get p ''package'') \<or> js_truthy (js_get p ''packageLabel'')"
  using assms by (auto simp: missing_fields_def Let_def split: if_splits)



lemma sent_mail_oauth2:
  assumes "SendMail tr m \<in> set (fst (main_oauth2 pf body))"
  shows "missing_fields (payload_of pf body) = []" and "oauth2_mail pf body = Some m"
  using assms
  by (auto simp: main_oauth2_eq exchange_effect_def split: if_splits option.splits)

lemma sent_mail_smtp:
  assumes "SendMail tr m \<in> set (fst (main_smtp pf body))"
  shows "missing_fields (payload_of pf body) = []" and "smtp_mail pf body = Some m"
  using assms
  by (auto simp: main_smtp_eq split: if_splits option.splits)

lemma build_mail_headers:
  assumes "build_mail s now sender to_email = Some m"
  shows "replyTo m = (if userEmail s = JStr ''Unknown'' then JUndefined else userEmail s)"
    and "mail_from m = sender_header sender"
  using assms by (auto simp: build_mail_def sender_header_def split: bind_splits)

lemma valid_email_field:
  assumes "missing_fields p = []"
  shows "userEmail (read_fields p) = js_get p ''email''"
  using missing_nil_truthy(2) [OF assms] by (simp add: read_fields_def js_or_def Let_def)

text \<open>
  C9. Every mail either variant sends belongs to a request that passed validation; its
  reply-to is the submitted email value, unless that value is the string \<open>Unknown\<close>,
  in which case reply-to is left undefined; its sender header is the fixed display name
  \<open>"SBA Website"\<close> followed by the sender's address in angle brackets.
\<close>

theorem reply_to_submitter:
  "(SendMail tr m \<in> set (fst (main_oauth2 pf body)) \<longrightarrow>
      missing_fields (payload_of pf body) = []
      \<and> replyTo m = (if js_get (payload_of pf body) ''email'' = JStr ''Unknown'' then JUndefined
                     else js_get (payload_of pf body) ''email'')
      \<and> mail_from m = sender_header (gmail_sender pf))
   \<and> (SendMail tr m \<in> set (fst (main_smtp pf body)) \<longrightarrow>
      missing_fields (payload_of pf body) = []
      \<and> replyTo m = (if js_get (payload_of pf body) ''email'' = JStr ''Unknown'' then JUndefined
                     else js_get (payload_of pf body) ''email'')
      \<and> mail_from m = sender_header (env_template (process_env pf ''SMTP_USER'')))"
proof (intro conjI impI)
  assume a: "SendMail tr m \<in> set (fst (main_oauth2 pf body))"
  note v = sent_mail_oauth2 [OF a]
  show "missing_fields (payload_of pf body) = []" by (rule v(1))
  from v(2) have b: "build_mail (read_fields (payload_of pf body)) (date_now pf)
                       (gmail_sender pf) (admin_email pf) = Some m"
    by (simp add: oauth2_mail_def)
  show "replyTo m = (if js_get (payload_of pf body) ''email'' = JStr ''Unknown'' then JUndefined
                     else js_get (payload_of pf body) ''email'')"
    using build_mail_headers(1) [OF b] by (simp add: valid_email_field [OF v(1)])
  show "mail_from m = sender_header (gmail_sender pf)"
    by (rule build_mail_headers(2) [OF b])
next
  assume a: "SendMail tr m \<in> set (fst (main_smtp pf body))"
  note v = sent_mail_smtp [OF a]
  show "missing_fields (payload_of pf body) = []" by (rule v(1))
  from v(2) have b: "build_mail (read_fields (payload_of pf body)) (date_now pf)
                       (env_template (process_env pf ''SMTP_USER'')) (admin_email pf) = Some m"
    by (simp add: smtp_mail_def)
  show "replyTo m = (if js_get (payload_of pf body) ''email'' = JStr ''Unknown'' then JUndefined
                     else js_get (payload_of pf body) ''email'')"
    using build_mail_headers(1) [OF b] by (simp add: valid_email_field [OF v(1)])
  show "mail_from m = sender_header (env_template (process_env pf ''SMTP_USER''))"
    by (rule build_mail_headers(2) [OF b])
qed

lemma unknown_email_facts:
  "payload_of pf unknown_email_payload = unknown_email_payload"
  "missing_fields unknown_email_payload = []"
  "build_mail (read_fields unknown_email_payload) ''02/11/2026, 10:15:00'' sender to_email
     = Some (unknown_email_mail sender to_email)"
  by (simp_all add: payload_of_def parse_body_def select_payload_def js_opt_get_def
        js_nullish_def js_or_def unknown_email_payload_def missing_fields_def build_mail_def
        render_html_def render_notes_def render_subject_def read_fields_def escapeHtml_def
        js_coalesce_def Let_def unknown_email_mail_def sender_header_def)

theorem reply_to_submitter_witness:
  "SendMail (oauth2_transport example_platform ''ya29.token'')
       (example_mail ''silvaboxingacademy@gmail.com'' ''silvaboxingacademy@gmail.com'')
     \<in> set (fst (main_oauth2 example_platform example_payload))
   \<and> replyTo (example_mail ''silvaboxingacademy@gmail.com'' ''silvaboxingacademy@gmail.com'')
       = JStr ''ana@example.org''
   \<and> mail_from (example_mail ''silvaboxingacademy@gmail.com'' ''silvaboxingacademy@gmail.com'')
       = sender_header ''silvaboxingacademy@gmail.com''
   \<and> SendMail (smtp_transport example_platform)
       (unknown_email_mail ''sba@example.org'' ''silvaboxingacademy@gmail.com'')
     \<in> set (fst (main_smtp example_platform unknown_email_payload))
   \<and> js_get (payload_of example_platform unknown_email_payload) ''email'' = JStr ''Unknown''
   \<and> replyTo (unknown_email_mail ''sba@example.org'' ''silvaboxingacademy@gmail.com'')
       = JUndefined
   \<and> mail_from (unknown_email_mail ''sba@example.org'' ''silvaboxingacademy@gmail.com'')
       = sender_header ''sba@example.org''"
proof -
  let ?g = "example_mail ''silvaboxingacademy@gmail.com'' ''silvaboxingacademy@gmail.com''"
  let ?u = "unknown_email_mail ''sba@example.org'' ''silvaboxingacademy@gmail.com''"
  have f: "\<not> token_exchange_fails example_platform"
    by (simp add: token_exchange_fails_def example_platform_simps)
  have k: "minted_token example_platform = ''ya29.token''"
    by (simp add: minted_token_def example_platform_simps)
  have h: "gmail_sender example_platform = ''silvaboxingacademy@gmail.com''"
    "admin_email example_platform = ''silvaboxingacademy@gmail.com''"
    "env_template (process_env example_platform ''SMTP_USER'') = ''sba@example.org''"
    by (simp_all add: gmail_sender_def admin_email_def env_or_def env_template_def
          example_platform_simps example_env_def)
  have o: "SendMail (oauth2_transport example_platform ''ya29.token'') ?g
            \<in> set (fst (main_oauth2 example_platform example_payload))"
    by (simp add: example_oauth2_answer example_platform_simps(1,3) example_config_ok f k h)
  have e: "js_get (payload_of example_platform example_payload) ''email'' = JStr ''ana@example.org''"
    "js_get (payload_of example_platform unknown_email_payload) ''email'' = JStr ''Unknown''"
    by (simp_all add: example_payload_of unknown_email_facts)
       (simp_all add: example_payload_def unknown_email_payload_def)
  have s: "SendMail (smtp_transport example_platform) ?u
            \<in> set (fst (main_smtp example_platform unknown_email_payload))"
    by (simp add: main_smtp_eq smtp_mail_def unknown_email_facts example_platform_simps(1,3) h)
  from reply_to_submitter [of "oauth2_transport example_platform ''ya29.token''" ?g
      example_platform example_payload]
    reply_to_submitter [of "smtp_transport example_platform" ?u
      example_platform unknown_email_payload]
    o s e h
  show ?thesis by simp
qed

lemma js_get_shadow: "k' \<noteq> k \<Longrightarrow> js_get (JObj ((k, v) # fs)) k' = js_get (JObj fs) k'"
  by simp

lemma all_suppliers_falsy:
  assumes "\<not> js_truthy (js_get p k)"
    and "\<forall>k' \<in> set (suppliers n). k' \<noteq> k \<longrightarrow> \<not> js_truthy (js_get p k')"
  shows "field_missing p n"
proof -
  have "\<not> js_truthy (js_get p k')" if "k' \<in> set (suppliers n)" for k'
  proof (cases "k' = k")
    case True
    with assms(1) show ?thesis by simp
  next
    case False
    from assms(2) that have "k' \<noteq> k \<longrightarrow> \<not> js_truthy (js_get p k')" by (rule bspec)
    then show ?thesis using False by (rule mp)
  qed
  then have "\<not> (\<exists>k' \<in> set (suppliers n). js_truthy (js_get p k'))" by simp
  then show "field_missing p n" unfolding field_missing_def list_ex_iff .
qed

text \<open>
  C10. The validator tests truthiness. A required field is reported exactly when none
  of the properties that can supply it is bound to a truthy value, so a field whose
  property is bound to a falsy value (the empty string, \<open>0\<close>, \<open>false\<close>, \<open>null\<close>)
  while no other property supplies it is missing; a request with a missing field is
  answered 400 with \<open>Missing required fields:\<close> and the names of the missing fields,
  that field among them, and nothing outside is called. A payload in which a property
  is bound to a falsy value is treated in every respect as the payload without that
  property: the same list of missing fields, the same submission, the same answer and
  calls in both variants.
\<close>

theorem falsy_is_absent:
  assumes "\<not> js_truthy (js_get p k)"
    and "js_get p' k = JUndefined"
    and "\<forall>k'. k' \<noteq> k \<longrightarrow> js_get p' k' = js_get p k'"
  shows "missing_fields p = missing_fields p'
         \<and> read_fields p = read_fields p'
         \<and> (n \<in> set (missing_fields p)) = (n \<in> set required_fields \<and> field_missing p n)
         \<and> (payload_of pf b = p \<and> payload_of pf b' = p' \<longrightarrow>
              main_oauth2 pf b = main_oauth2 pf b' \<and> main_smtp pf b = main_smtp pf b')
         \<and> (n \<in> set required_fields \<and> k \<in> set (suppliers n)
              \<and> (\<forall>k' \<in> set (suppliers n). k' \<noteq> k \<longrightarrow> \<not> js_truthy (js_get p k')) \<longrightarrow>
              field_missing p n \<and> n \<in> set (missing_fields p) \<and> n \<in> set (missing_fields p'))
         \<and> (payload_of pf b = p \<and> n \<in> set (missing_fields p) \<longrightarrow>
              main_smtp pf b
                = ([], \<lparr> status = 400, ok = False,
                         error = Some (''Missing required fields: ''
                                       @ js_join '', '' (missing_fields p)) \<rparr>)
              \<and> main_oauth2 pf b
                = ([], \<lparr> status = 400, ok = False,
                         error = Some (''Missing required fields: ''
                                       @ js_join '', '' (missing_fields p)) \<rparr>))"
proof -
  have E: "js_get p k' = js_get p' k'
           \<or> (\<not> js_truthy (js_get p k') \<and> \<not> js_truthy (js_get p' k'))" for k'
    using assms by (cases "k' = k") simp_all
  have T: "js_truthy (js_get p k') = js_truthy (js_get p' k')" for k'
    using E [of k'] by auto
  have O: "js_or (js_get p k') d = js_or (js_get p' k') d" for k' d
    using E [of k'] by (auto simp: js_or_def)
  have O2: "js_or (js_or a (js_get p k')) d = js_or (js_or a (js_get p' k')) d" for a k' d
    using E [of k'] by (auto simp: js_or_def)
  have m: "missing_fields p = missing_fields p'"
    by (simp add: missing_fields_def T)
  have r: "read_fields p = read_fields p'"
    by (simp add: read_fields_def O O2)
  have c: "(n \<in> set (missing_fields p)) = (n \<in> set required_fields \<and> field_missing p n)"
    by (auto simp: missing_fields_filter)
  have h: "payload_of pf b = p \<and> payload_of pf b' = p' \<longrightarrow>
              main_oauth2 pf b = main_oauth2 pf b' \<and> main_smtp pf b = main_smtp pf b'"
    using m r by (auto simp: main_oauth2_eq main_smtp_eq oauth2_mail_def smtp_mail_def)
  have f: "n \<in> set required_fields \<and> k \<in> set (suppliers n)
              \<and> (\<forall>k' \<in> set (suppliers n). k' \<noteq> k \<longrightarrow> \<not> js_truthy (js_get p k')) \<longrightarrow>
              field_missing p n \<and> n \<in> set (missing_fields p) \<and> n \<in> set (missing_fields p')"
  proof
    assume a: "n \<in> set required_fields \<and> k \<in> set (suppliers n)
              \<and> (\<forall>k' \<in> set (suppliers n). k' \<noteq> k \<longrightarrow> \<not> js_truthy (js_get p k'))"
    then have s: "\<forall>k' \<in> set (suppliers n). k' \<noteq> k \<longrightarrow> \<not> js_truthy (js_get p k')"
      by (elim conjE)
    from a have q: "n \<in> set required_fields" by (elim conjE)
    have fm: "field_missing p n" by (rule all_suppliers_falsy [OF assms(1) s])
    from c fm q have inp: "n \<in> set (missing_fields p)" by simp
    have "n \<in> set (missing_fields p')" using inp by (simp only: m)
    with fm inp show "field_missing p n \<and> n \<in> set (missing_fields p)
                     \<and> n \<in> set (missing_fields p')"
      by (intro conjI)
  qed
  have g: "payload_of pf b = p \<and> n \<in> set (missing_fields p) \<longrightarrow>
              main_smtp pf b
                = ([], \<lparr> status = 400, ok = False,
                         error = Some (''Missing required fields: ''
                                       @ js_join '', '' (missing_fields p)) \<rparr>)
              \<and> main_oauth2 pf b
                = ([], \<lparr> status = 400, ok = False,
                         error = Some (''Missing required fields: ''
                                       @ js_join '', '' (missing_fields p)) \<rparr>)"
  proof
    assume a: "payload_of pf b = p \<and> n \<in> set (missing_fields p)"
    then have "missing_fields (payload_of pf b) \<noteq> []"
      by (cases "missing_fields p") simp_all
    with a show "main_smtp pf b
                = ([], \<lparr> status = 400, ok = False,
                         error = Some (''Missing required fields: ''
                                       @ js_join '', '' (missing_fields p)) \<rparr>)
              \<and> main_oauth2 pf b
                = ([], \<lparr> status = 400, ok = False,
                         error = Some (''Missing required fields: ''
                                       @ js_join '', '' (missing_fields p)) \<rparr>)"
      by (simp add: main_smtp_eq main_oauth2_eq validation_response_def res_json_def)
  qed
  from m r c h f g show ?thesis by (intro conjI)
qed

theorem falsy_is_absent_witness:
  "\<not> js_truthy (js_get (JObj ((''email'', JStr []) # [(''name'', JStr ''Bo'')])) ''email'')
   \<and> js_get (JObj [(''name'', JStr ''Bo'')]) ''email'' = JUndefined
   \<and> missing_fields (JObj ((''email'', JStr []) # [(''name'', JStr ''Bo'')]))
       = missing_fields (JObj [(''name'', JStr ''Bo'')])
   \<and> missing_fields (JObj ((''email'', JStr []) # [(''name'', JStr ''Bo'')]))
       = [''email'', ''phone'', ''cycle'', ''package'']
   \<and> ''email'' \<in> set (missing_fields (JObj ((''email'', JStr []) # [(''name'', JStr ''Bo'')])))
   \<and> main_smtp example_platform (JObj ((''email'', JStr []) # [(''name'', JStr ''Bo'')]))
       = main_smtp example_platform (JObj [(''name'', JStr ''Bo'')])
   \<and> main_oauth2 example_platform (JObj ((''email'', JStr []) # [(''name'', JStr ''Bo'')]))
       = main_oauth2 example_platform (JObj [(''name'', JStr ''Bo'')])
   \<and> main_smtp example_platform (JObj ((''email'', JStr []) # [(''name'', JStr ''Bo'')]))
       = ([], \<lparr> status = 400, ok = False,
                error = Some ''Missing required fields: email, phone, cycle, package'' \<rparr>)
   \<and> main_oauth2 example_platform (JObj ((''email'', JStr []) # [(''name'', JStr ''Bo'')]))
       = ([], \<lparr> status = 400, ok = False,
                error = Some ''Missing required fields: email, phone, cycle, package'' \<rparr>)"
proof -
  let ?p = "JObj ((''email'', JStr []) # [(''name'', JStr ''Bo'')])"
  let ?q = "JObj [(''name'', JStr ''Bo'')]"
  have f: "\<not> js_truthy (js_get ?p ''email'')" by simp
  have u: "js_get ?q ''email'' = JUndefined" by simp
  have o: "\<forall>k'. k' \<noteq> ''email'' \<longrightarrow> js_get ?q k' = js_get ?p k'"
    by (simp add: js_get_shadow)
  have p: "payload_of example_platform ?p = ?p" "payload_of example_platform ?q = ?q"
    by (simp_all add: payload_of_def parse_body_def select_payload_def js_opt_get_def
          js_nullish_def js_or_def)
  have l: "missing_fields ?p = [''email'', ''phone'', ''cycle'', ''package'']"
    by (simp add: missing_fields_def)
  note A = falsy_is_absent [OF f u o, of "''email''" example_platform ?p ?q]
  have r: "''email'' \<in> set required_fields" "''email'' \<in> set (suppliers ''email'')"
    "\<forall>k' \<in> set (suppliers ''email''). k' \<noteq> ''email'' \<longrightarrow> \<not> js_truthy (js_get ?p k')"
    by (simp_all add: required_fields_def suppliers_def)
  from r have "''email'' \<in> set required_fields \<and> ''email'' \<in> set (suppliers ''email'')
      \<and> (\<forall>k' \<in> set (suppliers ''email''). k' \<noteq> ''email'' \<longrightarrow> \<not> js_truthy (js_get ?p k'))"
    by (intro conjI)
  with A [THEN conjunct2, THEN conjunct2, THEN conjunct2, THEN conjunct2, THEN conjunct1]
  have "field_missing ?p ''email'' \<and> ''email'' \<in> set (missing_fields ?p)
        \<and> ''email'' \<in> set (missing_fields ?q)"
    by (rule mp)
  then have e: "''email'' \<in> set (missing_fields ?p)" by (elim conjE)
  from p have "payload_of example_platform ?p = ?p \<and> payload_of example_platform ?q = ?q"
    by (intro conjI)
  with A [THEN conjunct2, THEN conjunct2, THEN conjunct2, THEN conjunct1]
  have "main_oauth2 example_platform ?p = main_oauth2 example_platform ?q
        \<and> main_smtp example_platform ?p = main_smtp example_platform ?q"
    by (rule mp)
  then have h: "main_smtp example_platform ?p = main_smtp example_platform ?q"
    "main_oauth2 example_platform ?p = main_oauth2 example_platform ?q"
    by simp_all
  from p(1) e
  have "payload_of example_platform ?p = ?p \<and> ''email'' \<in> set (missing_fields ?p)"
    by (intro conjI)
  with A [THEN conjunct2, THEN conjunct2, THEN conjunct2, THEN conjunct2, THEN conjunct2]
  have "main_smtp example_platform ?p
          = ([], \<lparr> status = 400, ok = False,
                   error = Some (''Missing required fields: ''
                                 @ js_join '', '' (missing_fields ?p)) \<rparr>)
        \<and> main_oauth2 example_platform ?p
          = ([], \<lparr> status = 400, ok = False,
                   error = Some (''Missing required fields: ''
                                 @ js_join '', '' (missing_fields ?p)) \<rparr>)"
    by (rule mp)
  then have g: "main_smtp example_platform ?p
       = ([], \<lparr> status = 400, ok = False,
                error = Some ''Missing required fields: email, phone, cycle, package'' \<rparr>)"
    "main_oauth2 example_platform ?p
       = ([], \<lparr> status = 400, ok = False,
                error = Some ''Missing required fields: email, phone, cycle, package'' \<rparr>)"
    by (simp_all add: l)
  from f u A [THEN conjunct1] l e h g show ?thesis by (intro conjI)
qed

end
